theory Spec2Isabelle
  imports Main
begin

section \<open>chromes: profile registry (package config)\<close>

text \<open>
  A shallow embedding of \<^verbatim>\<open>001-chromes/config/config.go\<close> and of the package
  \<^verbatim>\<open>chrome\<close> that follows it in the same source file. Go strings are byte
  sequences, modelled as \<^typ>\<open>string\<close>; a non-ASCII literal is written as its UTF-8 bytes.
\<close>

subsection \<open>Data\<close>

text \<open>\<^verbatim>\<open>type ChromeConfig struct\<close>. The field \<open>IsDefault\<close> carries the tag
  \<^verbatim>\<open>json:"-"\<close>: it is never serialised.\<close>

record chrome_config =
  Name :: string
  UserDataDir :: string
  IsDefault :: bool

text \<open>
  What the program takes from the Go runtime, the standard library and the operating
  system. None of it is code of the repository, so it is a parameter of every function
  below: a theorem that quantifies over \<open>sys\<close> holds for whatever these do.
  \<^item> \<open>os_goos\<close>: \<^verbatim>\<open>runtime.GOOS\<close>;
  \<^item> \<open>os_getenv\<close>: \<^verbatim>\<open>os.Getenv\<close>;
  \<^item> \<open>os_user_home_dir\<close>: \<^verbatim>\<open>os.UserHomeDir\<close>, \<open>None\<close> when it returns an error;
  \<^item> \<open>fp_join\<close>, \<open>fp_abs\<close>, \<open>fp_dir\<close>: \<^verbatim>\<open>filepath.Join\<close>, \<^verbatim>\<open>filepath.Abs\<close>
    (\<open>None\<close> for an error), \<^verbatim>\<open>filepath.Dir\<close>;
  \<^item> \<open>str_equal_fold\<close>: \<^verbatim>\<open>strings.EqualFold\<close>;
  \<^item> \<open>json_marshal_indent\<close>: \<^verbatim>\<open>json.MarshalIndent(v, "", "  ")\<close> on a slice of
    \<open>ChromeConfig\<close> pointers; it sees the two serialised fields only; \<open>None\<close> for an error;
  \<^item> \<open>json_unmarshal\<close>: \<^verbatim>\<open>json.Unmarshal\<close> into such a slice; \<open>None\<close> for an error,
    and an element \<open>None\<close> for a nil pointer (a JSON \<open>null\<close> in the array);
  \<^item> \<open>os_read_fails\<close>, \<open>os_mkdir_fails\<close>, \<open>os_write_fails\<close>: whether \<^verbatim>\<open>os.ReadFile\<close>
    (with an error other than "does not exist"), \<^verbatim>\<open>os.MkdirAll\<close> and
    \<^verbatim>\<open>os.WriteFile\<close> fail on a path;
  \<^item> \<open>proc_start\<close>: \<^verbatim>\<open>cmd.Start()\<close> of a command (path and arguments): the process
    id, or \<open>None\<close> for an error;
  \<^item> \<open>handle_signal\<close>: \<^verbatim>\<open>Process.Signal(syscall.SIGTERM)\<close> on the handle of a process
    the program started, \<open>None\<close> for \<^verbatim>\<open>nil\<close>;
  \<^item> \<open>proc_wait\<close>: \<^verbatim>\<open>cmd.Wait()\<close> on such a handle: \<open>None\<close> when the call never
    returns, otherwise whether it returned an error;
  \<^item> \<open>cmd_output\<close>: \<^verbatim>\<open>cmd.Output()\<close> of a command: the bytes of its standard output
    and the error, if any;
  \<^item> \<open>cmd_run\<close>: \<^verbatim>\<open>cmd.Run()\<close> of a command;
  \<^item> \<open>os_find_process\<close>: the error of \<^verbatim>\<open>os.FindProcess(pid)\<close>, if any;
  \<^item> \<open>pid_signal\<close>: \<^verbatim>\<open>Process.Signal(syscall.SIGTERM)\<close> on the process that
    \<^verbatim>\<open>os.FindProcess\<close> returned.
  The answers are fixed for the duration of one call of a function of the program.
\<close>

text \<open>An error of \<^verbatim>\<open>cmd.Output()\<close> or \<^verbatim>\<open>cmd.Run()\<close>: an \<^verbatim>\<open>*exec.ExitError\<close> with its exit
  code, or any other error.\<close>

datatype run_error = ExitError int | RunFailed

text \<open>An error of the \<^verbatim>\<open>os\<close> package: \<^verbatim>\<open>syscall.ESRCH\<close>, or another error with its
  text.\<close>

datatype os_error = ESRCH | OsError string

type_synonym command = "string \<times> string list"

record sys =
  os_goos :: string
  os_getenv :: "string \<Rightarrow> string"
  os_user_home_dir :: "string option"
  fp_join :: "string list \<Rightarrow> string"
  fp_abs :: "string \<Rightarrow> string option"
  fp_dir :: "string \<Rightarrow> string"
  str_equal_fold :: "string \<Rightarrow> string \<Rightarrow> bool"
  json_marshal_indent :: "(string \<times> string) list \<Rightarrow> string option"
  json_unmarshal :: "string \<Rightarrow> (string \<times> string) option list option"
  os_read_fails :: "string \<Rightarrow> bool"
  os_mkdir_fails :: "string \<Rightarrow> bool"
  os_write_fails :: "string \<Rightarrow> bool"
  proc_start :: "command \<Rightarrow> int option"
  handle_signal :: "int \<Rightarrow> os_error option"
  proc_wait :: "int option \<Rightarrow> bool option"
  cmd_output :: "command \<Rightarrow> string \<times> run_error option"
  cmd_run :: "command \<Rightarrow> run_error option"
  os_find_process :: "int \<Rightarrow> os_error option"
  pid_signal :: "int \<Rightarrow> os_error option"

text \<open>The files on disk: a path has contents or does not exist.\<close>

type_synonym fsys = "string \<rightharpoonup> string"

text \<open>One constructor for each error the package returns (each \<^verbatim>\<open>fmt.Errorf\<close> site, and the
  errors of the library passed through unchanged).\<close>

datatype config_error =
    SaveReservedName
  | SaveEmptyUserDataDir string
  | SaveDefaultPath string string
  | MarshalFailed
  | MkdirAllFailed
  | WriteFileFailed
  | AddReservedName
  | AddEmptyUserDataDir
  | AddDefaultPath string
  | AddNameExists string
  | AddDirExists string string string
  | AddSaveFailed config_error
  | RemoveDefault
  | RemoveNotFound string
  | RemoveSaveFailed config_error

subsection \<open>Constants and paths\<close>

text \<open>\<^verbatim>\<open>const DefaultChromeConfigName\<close>: an opening bracket, four CJK characters in UTF-8
  (three bytes each), a closing bracket.\<close>

definition DefaultChromeConfigName :: string where
  "DefaultChromeConfigName =
     [CHR ''['', CHR 0xE9, CHR 0xBB, CHR 0x98, CHR 0xE8, CHR 0xAE, CHR 0xA4,
      CHR 0xE9, CHR 0x85, CHR 0x8D, CHR 0xE7, CHR 0xBD, CHR 0xAE, CHR '']'']"

definition GetDefaultUserDataDir :: "sys \<Rightarrow> string" where
  "GetDefaultUserDataDir s =
     (if os_goos s = ''windows'' then
        fp_join s [os_getenv s ''LOCALAPPDATA'', ''Google'', ''Chrome'', ''User Data'']
      else if os_goos s = ''darwin'' then
        (case os_user_home_dir s of
           None \<Rightarrow> ''''
         | Some homeDir \<Rightarrow>
             fp_join s [homeDir, ''Library'', ''Application Support'', ''Google'', ''Chrome''])
      else if os_goos s = ''linux'' then
        (case os_user_home_dir s of
           None \<Rightarrow> ''''
         | Some homeDir \<Rightarrow> fp_join s [homeDir, ''.config'', ''google-chrome''])
      else '''')"

definition getDefaultConfigFile :: "sys \<Rightarrow> string" where
  "getDefaultConfigFile s =
     (if os_goos s = ''windows'' then
        (if os_getenv s ''APPDATA'' = '''' then
           (case os_user_home_dir s of
              None \<Rightarrow> fp_join s [''.'', ''chromes'', ''configs.json'']
            | Some homeDir \<Rightarrow>
                fp_join s [fp_join s [homeDir, ''AppData'', ''Roaming'', ''chromes''],
                           ''configs.json''])
         else fp_join s [fp_join s [os_getenv s ''APPDATA'', ''chromes''], ''configs.json''])
      else if os_goos s = ''darwin'' \<or> os_goos s = ''linux'' then
        (case os_user_home_dir s of
           None \<Rightarrow> fp_join s [''.'', ''chromes'', ''configs.json'']
         | Some homeDir \<Rightarrow>
             fp_join s [fp_join s [homeDir, ''.config'', ''chromes''], ''configs.json''])
      else
        (case os_user_home_dir s of
           None \<Rightarrow> fp_join s [''.'', ''chromes'', ''configs.json'']
         | Some homeDir \<Rightarrow> fp_join s [fp_join s [homeDir, ''.chromes''], ''configs.json'']))"

text \<open>\<^verbatim>\<open>var configFile = getDefaultConfigFile()\<close>\<close>

definition configFile :: "sys \<Rightarrow> string" where
  "configFile s = getDefaultConfigFile s"

text \<open>
  The test that \<open>LoadConfigs\<close>, \<open>SaveConfigs\<close> and \<open>AddConfig\<close> each write out:
  \<^verbatim>\<open>actualDefaultDir != "" && errCfg == nil && errDef == nil &&
  strings.EqualFold(absCfgPath, absDefaultPath)\<close>, after
  \<^verbatim>\<open>absCfgPath, errCfg := filepath.Abs(dir)\<close> and
  \<^verbatim>\<open>absDefaultPath, errDef := filepath.Abs(actualDefaultDir)\<close>.
\<close>

definition usesDefaultPath :: "sys \<Rightarrow> string \<Rightarrow> string \<Rightarrow> bool" where
  "usesDefaultPath s actualDefaultDir dir =
     (case (fp_abs s dir, fp_abs s actualDefaultDir) of
        (Some absCfgPath, Some absDefaultPath) \<Rightarrow>
          actualDefaultDir \<noteq> '''' \<and> str_equal_fold s absCfgPath absDefaultPath
      | _ \<Rightarrow> False)"

subsection \<open>LoadConfigs\<close>

definition defaultInstance :: chrome_config where
  "defaultInstance =
     \<lparr>Name = DefaultChromeConfigName, UserDataDir = '''', IsDefault = True\<rparr>"



subsection \<open>SaveConfigs\<close>

text \<open>The loop of \<open>SaveConfigs\<close>: the entries to write, or the first error.\<close>

fun saveCollect :: "sys \<Rightarrow> string \<Rightarrow> chrome_config list \<Rightarrow> config_error + chrome_config list"
where
  "saveCollect s actualDefaultDir [] = Inr []"
| "saveCollect s actualDefaultDir (cfg # rest) =
     (if IsDefault cfg then saveCollect s actualDefaultDir rest
      else if Name cfg = DefaultChromeConfigName then Inl SaveReservedName
      else if UserDataDir cfg = '''' then Inl (SaveEmptyUserDataDir (Name cfg))
      else if usesDefaultPath s actualDefaultDir (UserDataDir cfg)
        then Inl (SaveDefaultPath (Name cfg) (UserDataDir cfg))
      else (case saveCollect s actualDefaultDir rest of
              Inl e \<Rightarrow> Inl e
            | Inr userConfigs \<Rightarrow> Inr (cfg # userConfigs)))"

text \<open>What the encoder sees of an entry.\<close>

definition jsonFields :: "chrome_config \<Rightarrow> string \<times> string" where
  "jsonFields cfg = (Name cfg, UserDataDir cfg)"

definition SaveConfigs :: "sys \<Rightarrow> fsys \<Rightarrow> chrome_config list \<Rightarrow> fsys \<times> config_error option"
where
  "SaveConfigs s fs cfgs =
     (case saveCollect s (GetDefaultUserDataDir s) cfgs of
        Inl e \<Rightarrow> (fs, Some e)
      | Inr userConfigs \<Rightarrow>
          (case json_marshal_indent s (map jsonFields userConfigs) of
             None \<Rightarrow> (fs, Some MarshalFailed)
           | Some data \<Rightarrow>
               if os_mkdir_fails s (fp_dir s (configFile s)) then (fs, Some MkdirAllFailed)
               else if os_write_fails s (configFile s) then (fs, Some WriteFileFailed)
               else (fs(configFile s \<mapsto> data), None)))"

subsection \<open>strings.TrimSpace\<close>

text \<open>
  \<^verbatim>\<open>strings.TrimSpace\<close> removes the leading and trailing runes that \<^verbatim>\<open>unicode.IsSpace\<close>
  accepts. On the bytes of the string these are the six ASCII characters below and the
  UTF-8 encodings of U+0085, U+00A0 (two bytes), U+1680, U+2000 to U+200A, U+2028, U+2029,
  U+202F, U+205F and U+3000 (three bytes). A byte that starts no such encoding ends the
  trimming, as a rune that is not a space (or does not decode) does in Go.
\<close>

definition asciiSpace :: "char \<Rightarrow> bool" where
  "asciiSpace c = (c = CHR 0x09 \<or> c = CHR 0x0A \<or> c = CHR 0x0B \<or> c = CHR 0x0C
                   \<or> c = CHR 0x0D \<or> c = CHR 0x20)"

definition space2 :: "char \<Rightarrow> char \<Rightarrow> bool" where
  "space2 a b = (a = CHR 0xC2 \<and> (b = CHR 0x85 \<or> b = CHR 0xA0))"

definition space3 :: "char \<Rightarrow> char \<Rightarrow> char \<Rightarrow> bool" where
  "space3 a b c =
     ((a = CHR 0xE1 \<and> b = CHR 0x9A \<and> c = CHR 0x80)
      \<or> (a = CHR 0xE2 \<and> b = CHR 0x80
          \<and> (((0x80 :: nat) \<le> of_char c \<and> of_char c \<le> (0x8A :: nat))
              \<or> c = CHR 0xA8 \<or> c = CHR 0xA9 \<or> c = CHR 0xAF))
      \<or> (a = CHR 0xE2 \<and> b = CHR 0x81 \<and> c = CHR 0x9F)
      \<or> (a = CHR 0xE3 \<and> b = CHR 0x80 \<and> c = CHR 0x80))"

fun trimLeft :: "string \<Rightarrow> string" where
  "trimLeft (a # b # c # rest) =
     (if asciiSpace a then trimLeft (b # c # rest)
      else if space2 a b then trimLeft (c # rest)
      else if space3 a b c then trimLeft rest
      else a # b # c # rest)"
| "trimLeft [a, b] =
     (if asciiSpace a then trimLeft [b] else if space2 a b then [] else [a, b])"
| "trimLeft [a] = (if asciiSpace a then [] else [a])"
| "trimLeft [] = []"

text \<open>The same from the end, on the reversed string.\<close>

fun trimRightRev :: "string \<Rightarrow> string" where
  "trimRightRev (c # b # a # rest) =
     (if asciiSpace c then trimRightRev (b # a # rest)
      else if space2 b c then trimRightRev (a # rest)
      else if space3 a b c then trimRightRev rest
      else c # b # a # rest)"
| "trimRightRev [c, b] =
     (if asciiSpace c then trimRightRev [b] else if space2 b c then [] else [c, b])"
| "trimRightRev [c] = (if asciiSpace c then [] else [c])"
| "trimRightRev [] = []"

definition TrimSpace :: "string \<Rightarrow> string" where
  "TrimSpace str = rev (trimRightRev (rev (trimLeft str)))"

subsection \<open>AddConfig\<close>

text \<open>The loop of \<open>AddConfig\<close> over the current entries: the first collision, if any.
  \<open>absNewPath\<close> is \<open>None\<close> when \<^verbatim>\<open>filepath.Abs(userDataDir)\<close> failed (\<open>errNew\<close>).\<close>

fun addCollision ::
  "sys \<Rightarrow> string \<Rightarrow> string \<Rightarrow> string option \<Rightarrow> chrome_config list \<Rightarrow> config_error option"
where
  "addCollision s name userDataDir absNewPath [] = None"
| "addCollision s name userDataDir absNewPath (cfg # rest) =
     (if IsDefault cfg then addCollision s name userDataDir absNewPath rest
      else if Name cfg = name then Some (AddNameExists name)
      else (case (fp_abs s (UserDataDir cfg), absNewPath) of
              (Some absExistingPath, Some new) \<Rightarrow>
                if str_equal_fold s absExistingPath new
                then Some (AddDirExists userDataDir new (Name cfg))
                else addCollision s name userDataDir absNewPath rest
            | _ \<Rightarrow> addCollision s name userDataDir absNewPath rest))"

text \<open>The result is the file system after the call, the returned list and the returned
  error (\<open>None\<close> for \<^verbatim>\<open>nil\<close>).\<close>

definition AddConfig ::
  "sys \<Rightarrow> fsys \<Rightarrow> string \<Rightarrow> string \<Rightarrow> chrome_config list
     \<Rightarrow> fsys \<times> chrome_config list \<times> config_error option"
where
  "AddConfig s fs name userDataDir currentConfigs =
     (if name = DefaultChromeConfigName then (fs, currentConfigs, Some AddReservedName)
      else if TrimSpace userDataDir = '''' then (fs, currentConfigs, Some AddEmptyUserDataDir)
      else if usesDefaultPath s (GetDefaultUserDataDir s) userDataDir
        then (fs, currentConfigs, Some (AddDefaultPath userDataDir))
      else (case addCollision s name userDataDir (fp_abs s userDataDir) currentConfigs of
              Some e \<Rightarrow> (fs, currentConfigs, Some e)
            | None \<Rightarrow>
                (let newConfig = \<lparr>Name = name, UserDataDir = userDataDir, IsDefault = False\<rparr>;
                     updatedConfigs = currentConfigs @ [newConfig]
                 in case SaveConfigs s fs updatedConfigs of
                      (fs', Some e) \<Rightarrow> (fs', currentConfigs, Some (AddSaveFailed e))
                    | (fs', None) \<Rightarrow> (fs', updatedConfigs, None))))"

subsection \<open>RemoveConfig\<close>

text \<open>The loop of \<open>RemoveConfig\<close>: the flag \<open>found\<close> and the entries kept.\<close>

fun removeScan :: "string \<Rightarrow> chrome_config list \<Rightarrow> bool \<times> chrome_config list" where
  "removeScan name [] = (False, [])"
| "removeScan name (cfg # rest) =
     (case removeScan name rest of
        (found, updatedConfigs) \<Rightarrow>
          if Name cfg = name then (True, updatedConfigs) else (found, cfg # updatedConfigs))"

definition RemoveConfig ::
  "sys \<Rightarrow> fsys \<Rightarrow> string \<Rightarrow> chrome_config list
     \<Rightarrow> fsys \<times> chrome_config list \<times> config_error option"
where
  "RemoveConfig s fs name currentConfigs =
     (if name = DefaultChromeConfigName then (fs, currentConfigs, Some RemoveDefault)
      else (case removeScan name currentConfigs of
              (found, updatedConfigs) \<Rightarrow>
                if \<not> found then (fs, currentConfigs, Some (RemoveNotFound name))
                else (case SaveConfigs s fs updatedConfigs of
                        (fs', Some e) \<Rightarrow> (fs', currentConfigs, Some (RemoveSaveFailed e))
                      | (fs', None) \<Rightarrow> (fs', updatedConfigs, None))))"

section \<open>chromes: instance supervision (package chrome)\<close>

subsection \<open>Library functions on strings\<close>

text \<open>\<^verbatim>\<open>strings.ReplaceAll(s, old, new)\<close> for a one-byte ASCII \<open>old\<close>.\<close>

definition ReplaceAll :: "string \<Rightarrow> char \<Rightarrow> string \<Rightarrow> string" where
  "ReplaceAll str old new = concat (map (\<lambda>c. if c = old then new else [c]) str)"

text \<open>\<^verbatim>\<open>strings.Split(s, sep)\<close> for a one-byte ASCII \<open>sep\<close>: the empty string gives one
  empty piece.\<close>

fun Split :: "string \<Rightarrow> char \<Rightarrow> string list" where
  "Split [] sep = [[]]"
| "Split (c # cs) sep =
     (if c = sep then [] # Split cs sep
      else (case Split cs sep of
              [] \<Rightarrow> [[c]]
            | piece # pieces \<Rightarrow> (c # piece) # pieces))"

text \<open>\<^verbatim>\<open>strings.Contains\<close>\<close>

fun Contains :: "string \<Rightarrow> string \<Rightarrow> bool" where
  "Contains [] substr = (substr = [])"
| "Contains (c # cs) substr =
     (take (length substr) (c # cs) = substr \<or> Contains cs substr)"

text \<open>\<^verbatim>\<open>strconv.Itoa\<close>\<close>

fun decimal :: "nat \<Rightarrow> string" where
  "decimal n =
     (if n < 10 then [''0123456789'' ! n]
      else decimal (n div 10) @ [''0123456789'' ! (n mod 10)])"

definition Itoa :: "int \<Rightarrow> string" where
  "Itoa i = (if i < 0 then CHR ''-'' # decimal (nat (- i)) else decimal (nat i))"

text \<open>\<^verbatim>\<open>strconv.Atoi\<close> where \<open>int\<close> has 64 bits: an optional sign, then one or more decimal
  digits, and a value that fits; otherwise an error (\<open>None\<close>).\<close>

definition isDigit :: "char \<Rightarrow> bool" where
  "isDigit c = ((48 :: nat) \<le> of_char c \<and> of_char c \<le> (57 :: nat))"

definition digitsValue :: "string \<Rightarrow> nat" where
  "digitsValue ds = foldl (\<lambda>n c. n * 10 + (of_char c - 48)) 0 ds"

definition Atoi :: "string \<Rightarrow> int option" where
  "Atoi str =
     (let neg = (str \<noteq> [] \<and> hd str = CHR ''-'');
          ds = (if str \<noteq> [] \<and> (hd str = CHR ''-'' \<or> hd str = CHR ''+'') then tl str else str)
      in if ds = [] \<or> \<not> list_all isDigit ds then None
         else (let v = (if neg then - int (digitsValue ds) else int (digitsValue ds))
               in if - (2 ^ 63) \<le> v \<and> v < 2 ^ 63 then Some v else None))"

subsection \<open>Data\<close>

text \<open>What the program reads of an \<^verbatim>\<open>*exec.Cmd\<close>: the command, the field \<open>Process\<close> (\<open>None\<close>
  for \<^verbatim>\<open>nil\<close>, otherwise the process id) and the field \<open>ProcessState\<close> (\<open>None\<close> for
  \<^verbatim>\<open>nil\<close>, otherwise what \<^verbatim>\<open>Exited()\<close> returns).\<close>

record exec_cmd =
  Command :: command
  Process :: "int option"
  ProcessState :: "bool option"

text \<open>\<^verbatim>\<open>type Instance struct\<close>. The mutex \<open>mu\<close> is not a field of the record: every method
  below is one step, as the method is for the other holders of the lock. The mutex appears
  where \<open>Start\<close> is taken apart into its statements.\<close>

record chrome_instance =
  config :: chrome_config
  cmd :: "exec_cmd option"
  isRunning :: bool

text \<open>The errors of \<open>chromeStop\<close>.\<close>

datatype stop_error =
    UnsupportedOSDefault
  | FindDefaultFailed run_error
  | UnsupportedOS string
  | FindFailed string run_error
  | InvalidPid string
  | FindProcessFailed int os_error
  | KillFailed int

text \<open>The errors of the methods of \<open>Instance\<close>.\<close>

datatype chrome_error =
    AlreadyRunning string
  | AbsPathFailed string
  | StartFailed string string
  | NotRunning string
  | SignalAndFallbackFailed string os_error stop_error
  | SignalAndFallbackNotFound string os_error
  | StopByDirFailed string string stop_error
  | StopNotFound string string

text \<open>The calls on processes that the package makes, in the order it makes them: every
  function below takes the calls made so far and returns them with its own appended.\<close>

datatype os_call =
    StartCall command
  | HandleSignalCall int
  | WaitCall "int option"
  | OutputCall command
  | RunCall command
  | FindProcessCall int
  | PidSignalCall int

subsection \<open>Start\<close>

definition backslash :: string where
  "backslash = [CHR 0x5C]"

definition suppressionFlags :: "string list" where
  "suppressionFlags = [''--no-first-run'', ''--no-default-browser-check'']"

definition darwinChromePath :: string where
  "darwinChromePath = ''/Applications/Google Chrome.app/Contents/MacOS/Google Chrome''"

definition windowsChromePath :: string where
  "windowsChromePath =
     ''C:'' @ backslash @ ''Program Files'' @ backslash @ ''Google'' @ backslash
       @ ''Chrome'' @ backslash @ ''Application'' @ backslash @ ''chrome.exe''"

text \<open>The \<^verbatim>\<open>switch runtime.GOOS\<close> of \<open>Start\<close>: the command to launch, or the error of the
  one branch that can return.\<close>

definition launchCommand :: "sys \<Rightarrow> chrome_config \<Rightarrow> chrome_error + command" where
  "launchCommand s cfg =
     (let userDataDir = UserDataDir cfg in
      if os_goos s = ''darwin'' then
        (if userDataDir \<noteq> '''' then
           (case fp_abs s userDataDir of
              None \<Rightarrow> Inl (AbsPathFailed userDataDir)
            | Some absPath \<Rightarrow>
                Inr (darwinChromePath, [''--user-data-dir='' @ absPath] @ suppressionFlags))
         else Inr (darwinChromePath, [] @ suppressionFlags))
      else if os_goos s = ''windows'' then
        (if userDataDir \<noteq> '''' then
           Inr (windowsChromePath,
                [''--user-data-dir='' @ ReplaceAll userDataDir (CHR ''/'') backslash]
                  @ suppressionFlags)
         else Inr (windowsChromePath, [] @ suppressionFlags))
      else if os_goos s = ''linux'' then
        (if userDataDir \<noteq> '''' then
           Inr (''google-chrome'', [''--user-data-dir='' @ userDataDir] @ suppressionFlags)
         else Inr (''google-chrome'', [] @ suppressionFlags))
      else
        (if userDataDir \<noteq> '''' then
           Inr (''chrome'', [''--user-data-dir='' @ userDataDir] @ suppressionFlags)
         else Inr (''chrome'', [] @ suppressionFlags)))"

text \<open>A method returns the instance after the call, its result and the calls made.\<close>

definition Start ::
  "sys \<Rightarrow> chrome_instance \<Rightarrow> os_call list
     \<Rightarrow> chrome_instance \<times> chrome_error option \<times> os_call list"
where
  "Start s ci calls =
     (if isRunning ci then (ci, Some (AlreadyRunning (Name (config ci))), calls)
      else (case launchCommand s (config ci) of
              Inl e \<Rightarrow> (ci, Some e, calls)
            | Inr c \<Rightarrow>
                (case proc_start s c of
                   None \<Rightarrow>
                     (ci, Some (StartFailed (Name (config ci)) (UserDataDir (config ci))),
                      calls @ [StartCall c])
                 | Some pid \<Rightarrow>
                     (ci\<lparr>cmd := Some \<lparr>Command = c, Process = Some pid, ProcessState = None\<rparr>,
                         isRunning := True\<rparr>,
                      None, calls @ [StartCall c]))))"

subsection \<open>IsRunning, SetRunningState, Wait\<close>

definition processExited :: "chrome_instance \<Rightarrow> bool" where
  "processExited ci =
     (case cmd ci of
        None \<Rightarrow> False
      | Some c \<Rightarrow> (case ProcessState c of None \<Rightarrow> False | Some exited \<Rightarrow> exited))"

definition IsRunning :: "chrome_instance \<Rightarrow> chrome_instance \<times> bool" where
  "IsRunning ci =
     (if processExited ci then (ci\<lparr>isRunning := False, cmd := None\<rparr>, False)
      else (ci, isRunning ci))"

definition SetRunningState :: "chrome_instance \<Rightarrow> bool \<Rightarrow> chrome_instance" where
  "SetRunningState ci running =
     (if \<not> running then ci\<lparr>isRunning := running, cmd := None\<rparr>
      else ci\<lparr>isRunning := running\<rparr>)"

text \<open>\<open>Wait\<close> returns \<open>None\<close> when \<^verbatim>\<open>currentCmd.Wait()\<close> never returns. Otherwise the
  result holds whether \<open>Wait\<close> returned an error.\<close>

definition Wait ::
  "sys \<Rightarrow> chrome_instance \<Rightarrow> os_call list
     \<Rightarrow> (chrome_instance \<times> bool \<times> os_call list) option"
where
  "Wait s ci calls =
     (case cmd ci of
        None \<Rightarrow> Some (ci\<lparr>isRunning := False, cmd := None\<rparr>, False, calls)
      | Some currentCmd \<Rightarrow>
          (case proc_wait s (Process currentCmd) of
             None \<Rightarrow> None
           | Some err \<Rightarrow>
               Some (ci\<lparr>isRunning := False, cmd := None\<rparr>, err,
                     calls @ [WaitCall (Process currentCmd)])))"

subsection \<open>Process discovery\<close>

definition quote :: string where
  "quote = [CHR 0x27]"

definition dquote :: string where
  "dquote = [CHR 0x22]"

text \<open>The directory as the discovery commands name it: \<^verbatim>\<open>filepath.Abs\<close> on macOS, Linux
  and Windows (the directory itself when that fails), with every slash replaced by two
  backslashes on Windows; the directory as it is elsewhere.\<close>

definition discoveryDir :: "sys \<Rightarrow> string \<Rightarrow> string" where
  "discoveryDir s userDataDir =
     (if os_goos s = ''darwin'' \<or> os_goos s = ''linux'' then
        (case fp_abs s userDataDir of None \<Rightarrow> userDataDir | Some a \<Rightarrow> a)
      else if os_goos s = ''windows'' then
        ReplaceAll (case fp_abs s userDataDir of None \<Rightarrow> userDataDir | Some a \<Rightarrow> a)
          (CHR ''/'') (backslash @ backslash)
      else userDataDir)"

text \<open>The commands of \<open>isChromeDirInUse\<close>.\<close>

definition inUseDefaultCommand :: "sys \<Rightarrow> command option" where
  "inUseDefaultCommand s =
     (if os_goos s = ''darwin'' then
        Some (''sh'', [''-c'',
          ''ps -eo command | grep '' @ dquote @ darwinChromePath @ dquote
            @ '' | grep -v grep | grep -v -- '' @ quote @ ''--user-data-dir='' @ quote])
      else if os_goos s = ''windows'' then
        Some (''powershell'', [''-Command'',
          ''Get-CimInstance Win32_Process -Filter '' @ dquote @ ''Name='' @ quote
            @ ''chrome.exe'' @ quote @ dquote
            @ '' | Where-Object {$_.CommandLine -notlike '' @ quote
            @ ''*--user-data-dir=*'' @ quote
            @ ''} | Select-Object -ExpandProperty ProcessId''])
      else if os_goos s = ''linux'' then
        Some (''sh'', [''-c'',
          ''ps -eo command | grep -E '' @ quote @ ''(^|/)google-chrome( |$)'' @ quote
            @ '' | grep -v grep | grep -v -- '' @ quote @ ''--user-data-dir='' @ quote])
      else None)"

definition inUseDirCommand :: "sys \<Rightarrow> string \<Rightarrow> command" where
  "inUseDirCommand s userDataDir =
     (let absUserDataDir = discoveryDir s userDataDir in
      if os_goos s = ''darwin'' then
        (''pgrep'', [''-f'', darwinChromePath @ ''.*--user-data-dir='' @ absUserDataDir])
      else if os_goos s = ''windows'' then
        (''powershell'', [''-Command'',
          ''Get-CimInstance Win32_Process -Filter '' @ dquote @ ''Name='' @ quote
            @ ''chrome.exe'' @ quote @ '' AND CommandLine LIKE '' @ quote
            @ ''%%--user-data-dir='' @ absUserDataDir @ ''%%'' @ quote @ dquote
            @ '' | Select-Object -ExpandProperty ProcessId''])
      else (''pgrep'', [''-f'', ''chrome.*--user-data-dir='' @ absUserDataDir]))"

definition isChromeDirInUse :: "sys \<Rightarrow> string \<Rightarrow> os_call list \<Rightarrow> bool \<times> os_call list" where
  "isChromeDirInUse s userDataDir calls =
     (if userDataDir = '''' then
        (case inUseDefaultCommand s of
           None \<Rightarrow> (False, calls)
         | Some c \<Rightarrow>
             (case cmd_output s c of
                (output, Some err) \<Rightarrow> (False, calls @ [OutputCall c])
              | (output, None) \<Rightarrow> (0 < length (TrimSpace output), calls @ [OutputCall c])))
      else
        (let c = inUseDirCommand s userDataDir in
         case cmd_output s c of
           (output, Some err) \<Rightarrow> (False, calls @ [OutputCall c])
         | (output, None) \<Rightarrow> (0 < length (TrimSpace output), calls @ [OutputCall c])))"

definition NewInstance :: "sys \<Rightarrow> chrome_config \<Rightarrow> os_call list \<Rightarrow> chrome_instance \<times> os_call list"
where
  "NewInstance s cfg calls =
     (case isChromeDirInUse s (UserDataDir cfg) calls of
        (running, calls') \<Rightarrow> (\<lparr>config = cfg, cmd = None, isRunning = running\<rparr>, calls'))"

subsection \<open>chromeStop\<close>

text \<open>The commands with which \<open>chromeStop\<close> looks for the processes of a directory.\<close>

definition stopDefaultCommand :: "sys \<Rightarrow> command option" where
  "stopDefaultCommand s =
     (if os_goos s = ''darwin'' then
        Some (''sh'', [''-c'',
          ''ps -eo pid,command | grep '' @ dquote @ darwinChromePath @ dquote
            @ '' | grep -v grep | grep -v -- '' @ quote @ ''--user-data-dir='' @ quote
            @ '' | awk '' @ quote @ ''{print $1}'' @ quote])
      else if os_goos s = ''windows'' then
        Some (''powershell'', [''-Command'',
          ''(Get-CimInstance Win32_Process -Filter '' @ dquote @ ''Name='' @ quote
            @ ''chrome.exe'' @ quote @ dquote
            @ '' | Where-Object {$_.CommandLine -notlike '' @ quote
            @ ''*--user-data-dir=*'' @ quote
            @ ''} | Select-Object -ExpandProperty ProcessId) -join '' @ quote @ '','' @ quote])
      else if os_goos s = ''linux'' then
        Some (''sh'', [''-c'',
          ''ps -eo pid,command | grep -E '' @ quote @ ''(^|/)google-chrome( |$)'' @ quote
            @ '' | grep -v grep | grep -v -- '' @ quote @ ''--user-data-dir='' @ quote
            @ '' | awk '' @ quote @ ''{print $1}'' @ quote])
      else None)"

definition stopDirCommand :: "sys \<Rightarrow> string \<Rightarrow> command option" where
  "stopDirCommand s userDataDir =
     (let absUserDataDir = discoveryDir s userDataDir in
      if os_goos s = ''darwin'' then
        Some (''pgrep'', [''-f'', darwinChromePath @ ''.*--user-data-dir='' @ absUserDataDir])
      else if os_goos s = ''windows'' then
        Some (''powershell'', [''-Command'',
          ''(Get-CimInstance Win32_Process -Filter '' @ dquote @ ''Name='' @ quote
            @ ''chrome.exe'' @ quote @ '' AND CommandLine LIKE '' @ quote
            @ ''%%--user-data-dir='' @ absUserDataDir @ ''%%'' @ quote @ dquote
            @ '' | Select-Object -ExpandProperty ProcessId) -join '' @ quote @ '','' @ quote])
      else if os_goos s = ''linux'' then
        Some (''pgrep'', [''-f'', ''chrome.*--user-data-dir='' @ absUserDataDir])
      else None)"

text \<open>The first half of \<open>chromeStop\<close>: either the function returns here (\<open>Inl\<close>, with its
  result), or it goes on with the process ids found (\<open>Inr\<close>).\<close>

definition findPids ::
  "sys \<Rightarrow> string \<Rightarrow> os_call list
     \<Rightarrow> ((bool \<times> stop_error option) + string list) \<times> os_call list"
where
  "findPids s userDataDir calls =
     (if userDataDir = '''' then
        (case stopDefaultCommand s of
           None \<Rightarrow> (Inl (False, Some UnsupportedOSDefault), calls)
         | Some c \<Rightarrow>
             (case cmd_output s c of
                (output, Some err) \<Rightarrow>
                  (if err = ExitError 1 \<and> length output = 0 then Inl (False, None)
                   else Inl (False, Some (FindDefaultFailed err)),
                   calls @ [OutputCall c])
              | (output, None) \<Rightarrow>
                  (let pidsStr = TrimSpace output in
                   if pidsStr = '''' then Inl (False, None)
                   else if os_goos s = ''windows'' then Inr (Split pidsStr (CHR '',''))
                   else Inr (Split pidsStr (CHR 0x0A)),
                   calls @ [OutputCall c])))
      else
        (case stopDirCommand s userDataDir of
           None \<Rightarrow> (Inl (False, Some (UnsupportedOS (os_goos s))), calls)
         | Some findCmd \<Rightarrow>
             (case cmd_output s findCmd of
                (output, Some err) \<Rightarrow>
                  (if err = ExitError 1 then Inl (False, None)
                   else Inl (False, Some (FindFailed userDataDir err)),
                   calls @ [OutputCall findCmd])
              | (output, None) \<Rightarrow>
                  (let pidsStr = TrimSpace output in
                   if pidsStr = '''' then Inl (False, None)
                   else if os_goos s = ''windows'' then Inr (Split pidsStr (CHR '',''))
                   else Inr (Split pidsStr (CHR 0x0A)),
                   calls @ [OutputCall findCmd]))))"

definition errorText :: "os_error \<Rightarrow> string" where
  "errorText e = (case e of ESRCH \<Rightarrow> ''no such process'' | OsError text \<Rightarrow> text)"

text \<open>The loop over \<open>pidsToKill\<close>, with the variables \<open>killedAtLeastOne\<close> and
  \<open>lastKillError\<close>.\<close>

fun killAll ::
  "sys \<Rightarrow> string list \<Rightarrow> bool \<Rightarrow> stop_error option \<Rightarrow> os_call list
     \<Rightarrow> bool \<times> stop_error option \<times> os_call list"
where
  "killAll s [] killedAtLeastOne lastKillError calls =
     (killedAtLeastOne, lastKillError, calls)"
| "killAll s (p # rest) killedAtLeastOne lastKillError calls =
     (let pidStr = TrimSpace p in
      if pidStr = '''' then killAll s rest killedAtLeastOne lastKillError calls
      else (case Atoi pidStr of
        None \<Rightarrow> killAll s rest killedAtLeastOne (Some (InvalidPid pidStr)) calls
      | Some pid \<Rightarrow>
          if os_goos s = ''windows'' then
            (let killCmd = (''taskkill'', [''/PID'', Itoa pid, ''/F'']) in
             case cmd_run s killCmd of
               None \<Rightarrow> killAll s rest True lastKillError (calls @ [RunCall killCmd])
             | Some killErr \<Rightarrow>
                 if killErr = ExitError 128
                 then killAll s rest True lastKillError (calls @ [RunCall killCmd])
                 else killAll s rest killedAtLeastOne (Some (KillFailed pid))
                        (calls @ [RunCall killCmd]))
          else
            (case os_find_process s pid of
               Some err \<Rightarrow>
                 if err = ESRCH \<or> Contains (errorText err) ''process already finished''
                 then killAll s rest True lastKillError (calls @ [FindProcessCall pid])
                 else killAll s rest killedAtLeastOne (Some (FindProcessFailed pid err))
                        (calls @ [FindProcessCall pid])
             | None \<Rightarrow>
                 (case pid_signal s pid of
                    None \<Rightarrow>
                      killAll s rest True lastKillError
                        (calls @ [FindProcessCall pid, PidSignalCall pid])
                  | Some killErr \<Rightarrow>
                      if killErr = ESRCH
                      then killAll s rest True lastKillError
                             (calls @ [FindProcessCall pid, PidSignalCall pid])
                      else killAll s rest killedAtLeastOne (Some (KillFailed pid))
                             (calls @ [FindProcessCall pid, PidSignalCall pid])))))"

definition chromeStop ::
  "sys \<Rightarrow> string \<Rightarrow> os_call list \<Rightarrow> bool \<times> stop_error option \<times> os_call list"
where
  "chromeStop s userDataDir calls =
     (case findPids s userDataDir calls of
        (Inl (stopped, err), calls') \<Rightarrow> (stopped, err, calls')
      | (Inr pidsToKill, calls') \<Rightarrow>
          if length pidsToKill = 0 \<or> (length pidsToKill = 1 \<and> TrimSpace (hd pidsToKill) = '''')
          then (False, None, calls')
          else (case killAll s pidsToKill False None calls' of
                  (killedAtLeastOne, lastKillError, calls'') \<Rightarrow>
                    if \<not> killedAtLeastOne \<and> lastKillError \<noteq> None
                    then (False, lastKillError, calls'')
                    else (killedAtLeastOne, None, calls'')))"

subsection \<open>Stop\<close>

text \<open>\<^verbatim>\<open>ci.cmd != nil && ci.cmd.Process != nil\<close>: the process id of the owned handle.\<close>

definition ownedProcess :: "chrome_instance \<Rightarrow> int option" where
  "ownedProcess ci = (case cmd ci of None \<Rightarrow> None | Some c \<Rightarrow> Process c)"

definition Stop ::
  "sys \<Rightarrow> chrome_instance \<Rightarrow> os_call list
     \<Rightarrow> chrome_instance \<times> chrome_error option \<times> os_call list"
where
  "Stop s ci calls =
     (if \<not> isRunning ci then (ci, Some (NotRunning (Name (config ci))), calls)
      else (case ownedProcess ci of
        Some pid \<Rightarrow>
          (case handle_signal s pid of
             Some err \<Rightarrow>
               (case chromeStop s (UserDataDir (config ci)) (calls @ [HandleSignalCall pid]) of
                  (stopped, Some stopErr, calls') \<Rightarrow>
                    (ci, Some (SignalAndFallbackFailed (Name (config ci)) err stopErr), calls')
                | (stopped, None, calls') \<Rightarrow>
                    if \<not> stopped
                    then (ci, Some (SignalAndFallbackNotFound (Name (config ci)) err), calls')
                    else (ci\<lparr>isRunning := False\<rparr>, None, calls'))
           | None \<Rightarrow> (ci\<lparr>isRunning := False\<rparr>, None, calls @ [HandleSignalCall pid]))
      | None \<Rightarrow>
          (case chromeStop s (UserDataDir (config ci)) calls of
             (stopped, Some err, calls') \<Rightarrow>
               (ci, Some (StopByDirFailed (Name (config ci)) (UserDataDir (config ci)) err),
                calls')
           | (stopped, None, calls') \<Rightarrow>
               if \<not> stopped
               then (ci, Some (StopNotFound (Name (config ci)) (UserDataDir (config ci))),
                     calls')
               else (ci\<lparr>isRunning := False\<rparr>, None, calls'))))"

text \<open>The command with which \<open>chromeStop\<close> looks for the processes of a directory, when
  the platform has one.\<close>

definition discoveryCommand :: "sys \<Rightarrow> string \<Rightarrow> command option" where
  "discoveryCommand s userDataDir =
     (if userDataDir = '''' then stopDefaultCommand s else stopDirCommand s userDataDir)"

text \<open>The answers of that command that \<open>chromeStop\<close> takes for "no process found": it
  exits with status 1 (and, for the default profile, prints nothing), or it succeeds and
  prints white space only.\<close>

definition findsNothing :: "sys \<Rightarrow> string \<Rightarrow> bool" where
  "findsNothing s userDataDir =
     (case discoveryCommand s userDataDir of
        None \<Rightarrow> False
      | Some c \<Rightarrow>
          (case cmd_output s c of
             (output, Some err) \<Rightarrow>
               err = ExitError 1 \<and> (if userDataDir = '''' then length output = 0 else True)
           | (output, None) \<Rightarrow> TrimSpace output = ''''))"

subsection \<open>Start, statement by statement\<close>

text \<open>
  For the calls of \<open>Start\<close> that run at the same time on one instance, the method is taken
  apart at the places where another call can run. A call is before \<^verbatim>\<open>ci.mu.Lock()\<close>;
  or it holds the lock and is before the test of \<open>isRunning\<close>, before \<^verbatim>\<open>cmd.Start()\<close>
  with the command it has built, or before the two assignments with the command it has
  started; or it has returned (the deferred \<^verbatim>\<open>ci.mu.Unlock()\<close> runs as it returns).
\<close>

datatype start_pc =
    AtLock
  | AtCheck
  | AtSpawn command
  | AtAssign exec_cmd
  | Returned "chrome_error option"

text \<open>The instance, whether its mutex is locked, and where each call is (calls are
  numbered).\<close>

type_synonym start_state = "chrome_instance \<times> bool \<times> (nat \<Rightarrow> start_pc)"

inductive startStep :: "sys \<Rightarrow> start_state \<Rightarrow> start_state \<Rightarrow> bool" for s :: sys where
  lock:
    "pcs t = AtLock \<Longrightarrow> \<not> locked \<Longrightarrow>
       startStep s (ci, locked, pcs) (ci, True, pcs(t := AtCheck))"
| already_running:
    "pcs t = AtCheck \<Longrightarrow> isRunning ci \<Longrightarrow>
       startStep s (ci, locked, pcs)
         (ci, False, pcs(t := Returned (Some (AlreadyRunning (Name (config ci))))))"
| no_command:
    "pcs t = AtCheck \<Longrightarrow> \<not> isRunning ci \<Longrightarrow> launchCommand s (config ci) = Inl e \<Longrightarrow>
       startStep s (ci, locked, pcs) (ci, False, pcs(t := Returned (Some e)))"
| command_built:
    "pcs t = AtCheck \<Longrightarrow> \<not> isRunning ci \<Longrightarrow> launchCommand s (config ci) = Inr c \<Longrightarrow>
       startStep s (ci, locked, pcs) (ci, locked, pcs(t := AtSpawn c))"
| spawn_failed:
    "pcs t = AtSpawn c \<Longrightarrow> proc_start s c = None \<Longrightarrow>
       startStep s (ci, locked, pcs)
         (ci, False,
          pcs(t := Returned (Some (StartFailed (Name (config ci)) (UserDataDir (config ci))))))"
| spawned:
    "pcs t = AtSpawn c \<Longrightarrow> proc_start s c = Some pid \<Longrightarrow>
       startStep s (ci, locked, pcs)
         (ci, locked,
          pcs(t := AtAssign \<lparr>Command = c, Process = Some pid, ProcessState = None\<rparr>))"
| assigned:
    "pcs t = AtAssign started \<Longrightarrow>
       startStep s (ci, locked, pcs)
         (ci\<lparr>cmd := Some started, isRunning := True\<rparr>, False, pcs(t := Returned None))"

code_pred startStep .

text \<open>Every call is before the lock, and the mutex is free.\<close>

definition startInitial :: "chrome_instance \<Rightarrow> start_state" where
  "startInitial ci = (ci, False, \<lambda>t. AtLock)"

text \<open>A call holds the lock from \<^verbatim>\<open>Lock()\<close> to its return.\<close>

fun holdsLock :: "start_pc \<Rightarrow> bool" where
  "holdsLock AtLock = False"
| "holdsLock AtCheck = True"
| "holdsLock (AtSpawn c) = True"
| "holdsLock (AtAssign started) = True"
| "holdsLock (Returned r) = False"

text \<open>A call has seen the running flag false and not yet returned.\<close>

fun pastCheck :: "start_pc \<Rightarrow> bool" where
  "pastCheck (AtSpawn c) = True"
| "pastCheck (AtAssign started) = True"
| "pastCheck p = False"

text \<open>What holds of every state that calls of \<open>Start\<close> on the instance \<open>ci0\<close> can reach:
  the mutex is locked exactly when a call holds it, and one call at most does; while the
  running flag is false no call has succeeded; once it is true no call is past the test,
  and one call at most has succeeded; an instance that was running is never changed.\<close>

definition startInvariant :: "chrome_instance \<Rightarrow> start_state \<Rightarrow> bool" where
  "startInvariant ci0 st =
     (case st of (ci, locked, pcs) \<Rightarrow>
        (locked = (\<exists>t. holdsLock (pcs t)))
        \<and> (\<forall>t u. holdsLock (pcs t) \<and> holdsLock (pcs u) \<longrightarrow> t = u)
        \<and> (\<not> isRunning ci \<longrightarrow> (\<forall>t. pcs t \<noteq> Returned None))
        \<and> (isRunning ci \<longrightarrow>
              (\<forall>t. \<not> pastCheck (pcs t))
              \<and> (\<forall>t u. pcs t = Returned None \<and> pcs u = Returned None \<longrightarrow> t = u))
        \<and> (isRunning ci0 \<longrightarrow> ci = ci0 \<and> (\<forall>t. pcs t \<noteq> Returned None)))"

section \<open>A concrete system\<close>

text \<open>
  A Linux machine on which to run the definitions: the user's home is \<^verbatim>\<open>/home/u\<close>, the
  working directory is \<^verbatim>\<open>/work\<close>. Its library functions are given on the inputs the
  examples use: paths in clean form (no empty element, no dot element, no doubled or
  trailing slash) and ASCII text. No Chrome process is running, starting a process works
  and gives the process id 4711, and signals are delivered.
\<close>

text \<open>\<^verbatim>\<open>filepath.Join\<close> on non-empty elements in clean form.\<close>

fun unixJoin :: "string list \<Rightarrow> string" where
  "unixJoin [] = []"
| "unixJoin [e] = e"
| "unixJoin (e # es) = e @ ''/'' @ unixJoin es"

text \<open>\<^verbatim>\<open>filepath.Abs\<close> in the working directory \<^verbatim>\<open>/work\<close>, on the empty path and on paths in
  clean form.\<close>

definition unixAbs :: "string \<Rightarrow> string option" where
  "unixAbs p =
     (if p = '''' then Some ''/work''
      else if hd p = CHR ''/'' then Some p
      else Some (''/work/'' @ p))"

text \<open>\<^verbatim>\<open>filepath.Dir\<close> on a clean path with a slash that is not its first character.\<close>

definition unixDir :: "string \<Rightarrow> string" where
  "unixDir p = rev (tl (dropWhile (\<lambda>c. c \<noteq> CHR ''/'') (rev p)))"

text \<open>\<^verbatim>\<open>filepath.IsAbs\<close> on Unix.\<close>

definition unixIsAbs :: "string \<Rightarrow> bool" where
  "unixIsAbs p = (p \<noteq> '''' \<and> hd p = CHR ''/'')"

text \<open>\<^verbatim>\<open>strings.EqualFold\<close> on ASCII text.\<close>

definition asciiLower :: "char \<Rightarrow> char" where
  "asciiLower c =
     (if (65 :: nat) \<le> of_char c \<and> of_char c \<le> (90 :: nat)
      then char_of (of_char c + (32 :: nat)) else c)"

definition asciiEqualFold :: "string \<Rightarrow> string \<Rightarrow> bool" where
  "asciiEqualFold a b = (map asciiLower a = map asciiLower b)"

text \<open>The two documents the examples write and read, as \<^verbatim>\<open>encoding/json\<close> encodes and
  decodes them: the empty array, and an array of one entry.\<close>

definition workEntry :: "string \<times> string" where
  "workEntry = (''work'', ''/data/work'')"

definition workDocument :: string where
  "workDocument =
     ''['' @ [CHR 0x0A] @ ''  {'' @ [CHR 0x0A]
       @ ''    '' @ dquote @ ''name'' @ dquote @ '': '' @ dquote @ ''work'' @ dquote
       @ '','' @ [CHR 0x0A]
       @ ''    '' @ dquote @ ''user_data_dir'' @ dquote @ '': '' @ dquote @ ''/data/work''
       @ dquote @ [CHR 0x0A]
       @ ''  }'' @ [CHR 0x0A] @ '']''"

definition jsonEncode :: "(string \<times> string) list \<Rightarrow> string option" where
  "jsonEncode entries =
     (if entries = [] then Some ''[]''
      else if entries = [workEntry] then Some workDocument
      else None)"

definition jsonDecode :: "string \<Rightarrow> (string \<times> string) option list option" where
  "jsonDecode data =
     (if data = ''[]'' then Some []
      else if data = workDocument then Some [Some workEntry]
      else None)"

definition linuxSys :: sys where
  "linuxSys =
     \<lparr>os_goos = ''linux'',
      os_getenv = (\<lambda>name. ''''),
      os_user_home_dir = Some ''/home/u'',
      fp_join = unixJoin,
      fp_abs = unixAbs,
      fp_dir = unixDir,
      str_equal_fold = asciiEqualFold,
      json_marshal_indent = jsonEncode,
      json_unmarshal = jsonDecode,
      os_read_fails = (\<lambda>path. False),
      os_mkdir_fails = (\<lambda>path. False),
      os_write_fails = (\<lambda>path. False),
      proc_start = (\<lambda>c. Some 4711),
      handle_signal = (\<lambda>pid. None),
      proc_wait = (\<lambda>pid. Some False),
      cmd_output = (\<lambda>c. ('''', Some (ExitError 1))),
      cmd_run = (\<lambda>c. None),
      os_find_process = (\<lambda>pid. None),
      pid_signal = (\<lambda>pid. None)\<rparr>"

text \<open>A user profile and the instances the examples use.\<close>

definition workConfig :: chrome_config where
  "workConfig = \<lparr>Name = ''work'', UserDataDir = ''/data/work'', IsDefault = False\<rparr>"

definition stoppedWork :: chrome_instance where
  "stoppedWork = \<lparr>config = workConfig, cmd = None, isRunning = False\<rparr>"

text \<open>A user profile whose directory is relative to the working directory, and its
  instance before it is started.\<close>

definition sideConfig :: chrome_config where
  "sideConfig = \<lparr>Name = ''side'', UserDataDir = ''profiles/side'', IsDefault = False\<rparr>"

definition stoppedSide :: chrome_instance where
  "stoppedSide = \<lparr>config = sideConfig, cmd = None, isRunning = False\<rparr>"

text \<open>The default instance as \<open>NewInstance\<close> builds it when it finds a Chrome process with no
  directory argument: marked running, with no handle.\<close>

definition observedDefault :: chrome_instance where
  "observedDefault = \<lparr>config = defaultInstance, cmd = None, isRunning = True\<rparr>"

text \<open>An instance the program started itself: it holds the handle of process 4711.\<close>

definition ownedWork :: chrome_instance where
  "ownedWork =
     \<lparr>config = workConfig,
      cmd = Some \<lparr>Command = (''google-chrome'',
                              [''--user-data-dir=/data/work'', ''--no-first-run'',
                               ''--no-default-browser-check'']),
                  Process = Some 4711, ProcessState = None\<rparr>,
      isRunning = True\<rparr>"

text \<open>
  The same machine while a Chrome with no directory argument is running, seen at the
  moment the instances are built: the command of \<open>isChromeDirInUse\<close> for the default
  profile prints the command line of that process. The commands of \<open>chromeStop\<close> are run
  later; by then they find nothing.
\<close>

definition observingSys :: sys where
  "observingSys =
     linuxSys\<lparr>cmd_output :=
       (\<lambda>c. if Some c = inUseDefaultCommand linuxSys
            then (''/usr/bin/google-chrome'' @ [CHR 0x0A], None)
            else ('''', Some (ExitError 1)))\<rparr>"

text \<open>
  The same machine when the handle of process 4711 can no longer be signalled, the
  discovery command prints the process id 4242, and the signal to that process is refused.
\<close>

definition refusingSys :: sys where
  "refusingSys =
     linuxSys\<lparr>handle_signal := (\<lambda>pid. Some (OsError ''os: process already finished'')),
              cmd_output := (\<lambda>c. (''4242'' @ [CHR 0x0A], None)),
              pid_signal := (\<lambda>pid. Some (OsError ''operation not permitted''))\<rparr>"

section \<open>Properties of the instance life cycle\<close>

subsection \<open>What chromeStop returns\<close>

lemma killAll_calls:
  "\<exists>extra. snd (snd (killAll s ps k l calls)) = calls @ extra"
proof (induction ps arbitrary: k l calls)
  case Nil
  show ?case by simp
next
  case (Cons p ps)
  have step: "\<exists>extra. snd (snd (killAll s ps k' l' (calls @ more))) = calls @ extra"
    for k' l' more
    using Cons.IH [of k' l' "calls @ more"] by auto
  show ?case
    using step [of _ _ "[]"] step
    by (auto simp: Let_def split: option.splits)
qed

lemma findPids_calls:
  "\<exists>extra. snd (findPids s d calls) = calls @ extra"
  by (auto simp: findPids_def Let_def split: option.splits prod.splits)

lemma findPids_Inl_False:
  "fst (findPids s d calls) = Inl (stopped, err) \<Longrightarrow> \<not> stopped"
  by (auto simp: findPids_def Let_def split: option.splits prod.splits if_splits)

text \<open>An error of \<open>chromeStop\<close> always comes with the answer "not stopped".\<close>

lemma chromeStop_error_not_stopped:
  "chromeStop s d calls = (stopped, Some e, calls') \<Longrightarrow> \<not> stopped"
  using findPids_Inl_False [of s d calls]
  by (auto simp: chromeStop_def split: prod.splits sum.splits if_splits)

text \<open>\<open>chromeStop\<close> only adds to the calls made.\<close>

lemma chromeStop_calls:
  "\<exists>extra. snd (snd (chromeStop s d calls)) = calls @ extra"
proof (cases "findPids s d calls")
  case (Pair r calls1)
  from findPids_calls [of s d calls] Pair obtain e1 where c1: "calls1 = calls @ e1" by auto
  show ?thesis
  proof (cases r)
    case (Inl a)
    with Pair c1 show ?thesis by (cases a) (simp add: chromeStop_def)
  next
    case (Inr pids)
    from killAll_calls [of s pids False None calls1] obtain e2
      where "snd (snd (killAll s pids False None calls1)) = calls1 @ e2" by auto
    with Pair c1 Inr show ?thesis
      by (auto simp: chromeStop_def split: prod.splits)
  qed
qed

text \<open>When the discovery finds nothing, \<open>chromeStop\<close> runs the discovery command and
  nothing else, and answers "not stopped" with no error.\<close>

lemma findPids_findsNothing:
  assumes "discoveryCommand s d = Some c" and "findsNothing s d"
  shows "findPids s d calls = (Inl (False, None), calls @ [OutputCall c])"
proof (cases "cmd_output s c")
  case (Pair out err)
  show ?thesis
  proof (cases "d = ''''")
    case True
    with assms Pair show ?thesis
      by (cases err) (simp_all add: findPids_def findsNothing_def discoveryCommand_def)
  next
    case False
    with assms Pair show ?thesis
      by (cases err) (simp_all add: findPids_def findsNothing_def discoveryCommand_def)
  qed
qed

lemma chromeStop_findsNothing:
  assumes "discoveryCommand s d = Some c" and "findsNothing s d"
  shows "chromeStop s d calls = (False, None, calls @ [OutputCall c])"
  using findPids_findsNothing [OF assms, of calls] by (simp add: chromeStop_def)

subsection \<open>Stop without a handle\<close>

text \<open>
  Claim C1, as the code has it. For an instance that is marked running and holds no
  handle, \<open>Stop\<close> signals no handle and goes straight to \<open>chromeStop\<close>, the discovery and
  kill by directory: it succeeds, and clears the running flag, exactly when \<open>chromeStop\<close>
  reports a process stopped. When the discovery finds no matching process, \<open>Stop\<close> runs
  the discovery command and nothing else, returns the error "could not find chrome
  process", and leaves the running flag true.
\<close>

theorem Stop_without_handle:
  assumes "isRunning ci" and "ownedProcess ci = None"
  shows "(\<exists>stopped err calls'.
            chromeStop s (UserDataDir (config ci)) calls = (stopped, err, calls')
            \<and> Stop s ci calls =
                (if stopped then (ci\<lparr>isRunning := False\<rparr>, None, calls')
                 else (ci, Some (case err of
                                   None \<Rightarrow> StopNotFound (Name (config ci)) (UserDataDir (config ci))
                                 | Some e \<Rightarrow> StopByDirFailed (Name (config ci))
                                              (UserDataDir (config ci)) e),
                       calls')))
         \<and> (\<forall>c. discoveryCommand s (UserDataDir (config ci)) = Some c
                 \<and> findsNothing s (UserDataDir (config ci)) \<longrightarrow>
               Stop s ci calls =
                 (ci, Some (StopNotFound (Name (config ci)) (UserDataDir (config ci))),
                  calls @ [OutputCall c]))"
proof -
  obtain stopped err calls'
    where cs: "chromeStop s (UserDataDir (config ci)) calls = (stopped, err, calls')"
    by (cases "chromeStop s (UserDataDir (config ci)) calls") auto
  have ns: "err \<noteq> None \<Longrightarrow> \<not> stopped"
    using chromeStop_error_not_stopped [of s _ calls stopped _ calls'] cs by auto
  have general: "Stop s ci calls =
                (if stopped then (ci\<lparr>isRunning := False\<rparr>, None, calls')
                 else (ci, Some (case err of
                                   None \<Rightarrow> StopNotFound (Name (config ci)) (UserDataDir (config ci))
                                 | Some e \<Rightarrow> StopByDirFailed (Name (config ci))
                                              (UserDataDir (config ci)) e),
                       calls'))"
    using assms cs ns by (cases err) (auto simp: Stop_def)
  have quiet: "Stop s ci calls =
                 (ci, Some (StopNotFound (Name (config ci)) (UserDataDir (config ci))),
                  calls @ [OutputCall c])"
    if "discoveryCommand s (UserDataDir (config ci)) = Some c"
      and "findsNothing s (UserDataDir (config ci))" for c
    using chromeStop_findsNothing [OF that, of calls] assms by (simp add: Stop_def)
  from cs general quiet show ?thesis by blast
qed

text \<open>The theorem at the default instance, observed running when it was built, whose
  discovery then finds nothing.\<close>

theorem Stop_without_handle_witness:
  "isRunning observedDefault \<and> ownedProcess observedDefault = None
   \<and> discoveryCommand observingSys (UserDataDir (config observedDefault))
       = stopDefaultCommand linuxSys
   \<and> findsNothing observingSys (UserDataDir (config observedDefault))
   \<and> (\<exists>c. stopDefaultCommand linuxSys = Some c
         \<and> Stop observingSys observedDefault [] =
             (observedDefault, Some (StopNotFound DefaultChromeConfigName ''''),
              [OutputCall c]))"
proof -
  have running: "isRunning observedDefault"
    by (simp add: observedDefault_def)
  have handle: "ownedProcess observedDefault = None"
    by (simp add: observedDefault_def ownedProcess_def)
  have dir: "UserDataDir (config observedDefault) = ''''"
    by (simp add: observedDefault_def defaultInstance_def)
  have name: "Name (config observedDefault) = DefaultChromeConfigName"
    by (simp add: observedDefault_def defaultInstance_def)
  have command: "discoveryCommand observingSys '''' = stopDefaultCommand linuxSys"
    by (simp add: discoveryCommand_def stopDefaultCommand_def observingSys_def)
  have quiet: "findsNothing observingSys ''''"
    by code_simp
  obtain c where found: "stopDefaultCommand linuxSys = Some c"
    by (auto simp: stopDefaultCommand_def linuxSys_def)
  from Stop_without_handle [OF running handle, of observingSys "[]"]
       dir name command quiet found
  have "Stop observingSys observedDefault [] =
          (observedDefault, Some (StopNotFound DefaultChromeConfigName ''''), [OutputCall c])"
    by simp
  with found dir command quiet running handle show ?thesis by simp
qed

text \<open>
  The claim as the specification states it ("if that discovery finds no matching process,
  \<open>Stop\<close> does not return an error") fails. The default instance is built while a Chrome
  with no directory argument runs, so it is marked running and holds no handle; the
  discovery of \<open>Stop\<close> then finds nothing (the command exits with status 1 and prints
  nothing), and \<open>Stop\<close> returns an error.
\<close>

theorem Stop_without_handle_counterexample:
  "fst (NewInstance observingSys defaultInstance []) = observedDefault
   \<and> isRunning observedDefault \<and> cmd observedDefault = None
   \<and> findsNothing observingSys (UserDataDir (config observedDefault))
   \<and> fst (snd (Stop observingSys observedDefault []))
       = Some (StopNotFound DefaultChromeConfigName '''')
   \<and> fst (snd (Stop observingSys observedDefault [])) \<noteq> None"
proof -
  have built: "fst (NewInstance observingSys defaultInstance []) = observedDefault"
    by code_simp
  have state: "isRunning observedDefault \<and> cmd observedDefault = None"
    by (simp add: observedDefault_def)
  have quiet: "findsNothing observingSys (UserDataDir (config observedDefault))"
    by code_simp
  have result: "fst (snd (Stop observingSys observedDefault []))
       = Some (StopNotFound DefaultChromeConfigName '''')"
    by code_simp
  from built state quiet result show ?thesis by simp
qed

subsection \<open>Stop with an owned handle\<close>

text \<open>
  Claim C3, as the code has it. On a running instance that owns a handle, the first call
  of \<open>Stop\<close> is the termination signal to that handle. When the signal is delivered,
  \<open>Stop\<close> succeeds and makes no other call. When it is not, \<open>Stop\<close> falls back to
  \<open>chromeStop\<close> for the directory of the profile, and returns an error exactly when that
  fallback reports no process stopped: "could not find process" when it found none, and
  "fallback stop failed" when the fallback itself failed (the platform has no discovery
  command, the discovery command failed, or no process found could be signalled).
  Whenever \<open>Stop\<close> returns an error the instance is unchanged, so its running flag is
  still true; when it succeeds only the running flag changes.
\<close>

theorem Stop_with_handle:
  assumes "isRunning ci" and "ownedProcess ci = Some pid"
  shows "\<exists>ci' res rest.
           Stop s ci calls = (ci', res, calls @ HandleSignalCall pid # rest)
         \<and> (handle_signal s pid = None \<longrightarrow> res = None \<and> rest = [])
         \<and> (\<forall>sigErr. handle_signal s pid = Some sigErr \<longrightarrow>
               (\<exists>stopped err.
                  chromeStop s (UserDataDir (config ci)) (calls @ [HandleSignalCall pid])
                    = (stopped, err, calls @ HandleSignalCall pid # rest)
                  \<and> res = (if stopped then None
                           else Some (case err of
                                  None \<Rightarrow> SignalAndFallbackNotFound (Name (config ci)) sigErr
                                | Some e \<Rightarrow>
                                    SignalAndFallbackFailed (Name (config ci)) sigErr e))))
         \<and> (\<forall>sigErr c. handle_signal s pid = Some sigErr
                    \<and> discoveryCommand s (UserDataDir (config ci)) = Some c
                    \<and> findsNothing s (UserDataDir (config ci)) \<longrightarrow>
               res = Some (SignalAndFallbackNotFound (Name (config ci)) sigErr)
               \<and> rest = [OutputCall c])
         \<and> (res \<noteq> None \<longrightarrow> ci' = ci \<and> isRunning ci')
         \<and> (res = None \<longrightarrow> ci' = ci\<lparr>isRunning := False\<rparr>)"
proof (cases "handle_signal s pid")
  case None
  with assms show ?thesis by (simp add: Stop_def)
next
  case (Some sigErr)
  obtain stopped err calls'
    where cs: "chromeStop s (UserDataDir (config ci)) (calls @ [HandleSignalCall pid])
                 = (stopped, err, calls')"
    by (cases "chromeStop s (UserDataDir (config ci)) (calls @ [HandleSignalCall pid])") auto
  from chromeStop_calls [of s "UserDataDir (config ci)" "calls @ [HandleSignalCall pid]"] cs
  obtain rest where rest: "calls' = calls @ HandleSignalCall pid # rest" by auto
  have ns: "err \<noteq> None \<Longrightarrow> \<not> stopped"
    using chromeStop_error_not_stopped [of s _ _ stopped _ calls'] cs by auto
  have quiet: "\<not> stopped \<and> err = None \<and> rest = [OutputCall c]"
    if "discoveryCommand s (UserDataDir (config ci)) = Some c"
      and "findsNothing s (UserDataDir (config ci))" for c
    using chromeStop_findsNothing [OF that, of "calls @ [HandleSignalCall pid]"] cs rest
    by simp
  from assms Some cs rest ns quiet show ?thesis
    by (cases err; cases stopped) (auto simp: Stop_def)
qed

text \<open>The theorem at an instance whose handle takes the signal, and at the same instance
  when the signal fails and the discovery finds nothing.\<close>

theorem Stop_with_handle_witness:
  "isRunning ownedWork \<and> ownedProcess ownedWork = Some 4711
   \<and> handle_signal linuxSys 4711 = None
   \<and> Stop linuxSys ownedWork [] =
       (ownedWork\<lparr>isRunning := False\<rparr>, None, [HandleSignalCall 4711])
   \<and> handle_signal (linuxSys\<lparr>handle_signal := \<lambda>pid. Some ESRCH\<rparr>) 4711 = Some ESRCH
   \<and> findsNothing (linuxSys\<lparr>handle_signal := \<lambda>pid. Some ESRCH\<rparr>)
         (UserDataDir (config ownedWork))
   \<and> Stop (linuxSys\<lparr>handle_signal := \<lambda>pid. Some ESRCH\<rparr>) ownedWork [] =
       (ownedWork, Some (SignalAndFallbackNotFound ''work'' ESRCH),
        [HandleSignalCall 4711,
         OutputCall (''pgrep'', [''-f'', ''chrome.*--user-data-dir=/data/work''])])"
proof -
  let ?gone = "linuxSys\<lparr>handle_signal := \<lambda>pid. Some ESRCH\<rparr>"
  let ?find = "(''pgrep'', [''-f'', ''chrome.*--user-data-dir=/data/work''])"
  have running: "isRunning ownedWork"
    by (simp add: ownedWork_def)
  have handle: "ownedProcess ownedWork = Some 4711"
    by (simp add: ownedWork_def ownedProcess_def)
  have name: "Name (config ownedWork) = ''work''"
    by (simp add: ownedWork_def workConfig_def)
  have signal: "handle_signal linuxSys 4711 = None"
    by (simp add: linuxSys_def)
  have refused: "handle_signal ?gone 4711 = Some ESRCH"
    by simp
  have command: "discoveryCommand ?gone (UserDataDir (config ownedWork)) = Some ?find"
    by code_simp
  have quiet: "findsNothing ?gone (UserDataDir (config ownedWork))"
    by code_simp
  from Stop_with_handle [OF running handle, of linuxSys "[]"] signal
  have delivered: "Stop linuxSys ownedWork [] =
       (ownedWork\<lparr>isRunning := False\<rparr>, None, [HandleSignalCall 4711])"
    by auto
  from Stop_with_handle [OF running handle, of ?gone "[]"]
  obtain ci' res rest
    where result: "Stop ?gone ownedWork [] = (ci', res, [] @ HandleSignalCall 4711 # rest)"
      and found: "\<forall>sigErr c. handle_signal ?gone 4711 = Some sigErr
                    \<and> discoveryCommand ?gone (UserDataDir (config ownedWork)) = Some c
                    \<and> findsNothing ?gone (UserDataDir (config ownedWork)) \<longrightarrow>
               res = Some (SignalAndFallbackNotFound (Name (config ownedWork)) sigErr)
               \<and> rest = [OutputCall c]"
      and kept: "res \<noteq> None \<longrightarrow> ci' = ownedWork \<and> isRunning ci'"
    by blast
  from found refused command quiet name
  have "res = Some (SignalAndFallbackNotFound ''work'' ESRCH) \<and> rest = [OutputCall ?find]"
    by metis
  with result kept
  have failed: "Stop ?gone ownedWork [] =
       (ownedWork, Some (SignalAndFallbackNotFound ''work'' ESRCH),
        [HandleSignalCall 4711, OutputCall ?find])"
    by simp
  from running handle signal delivered refused quiet failed show ?thesis by simp
qed

text \<open>
  The claim as the specification states it ("returning StopError only if that fallback
  also finds nothing") fails: here the signal to the handle fails, the discovery finds
  process 4242, the signal to that process is refused, and \<open>Stop\<close> returns an error.
\<close>

theorem Stop_with_handle_counterexample:
  "isRunning ownedWork \<and> ownedProcess ownedWork = Some 4711
   \<and> handle_signal refusingSys 4711 \<noteq> None
   \<and> fst (findPids refusingSys (UserDataDir (config ownedWork)) []) = Inr [''4242'']
   \<and> \<not> findsNothing refusingSys (UserDataDir (config ownedWork))
   \<and> Stop refusingSys ownedWork [] =
        (ownedWork,
         Some (SignalAndFallbackFailed ''work'' (OsError ''os: process already finished'')
                 (KillFailed 4242)),
         [HandleSignalCall 4711,
          OutputCall (''pgrep'', [''-f'', ''chrome.*--user-data-dir=/data/work'']),
          FindProcessCall 4242, PidSignalCall 4242])"
proof -
  have state: "isRunning ownedWork \<and> ownedProcess ownedWork = Some 4711"
    by (simp add: ownedWork_def ownedProcess_def)
  have signal: "handle_signal refusingSys 4711 \<noteq> None"
    by (simp add: refusingSys_def)
  have found: "fst (findPids refusingSys (UserDataDir (config ownedWork)) []) = Inr [''4242'']"
    by code_simp
  have busy: "\<not> findsNothing refusingSys (UserDataDir (config ownedWork))"
    by code_simp
  have result: "Stop refusingSys ownedWork [] =
        (ownedWork,
         Some (SignalAndFallbackFailed ''work'' (OsError ''os: process already finished'')
                 (KillFailed 4242)),
         [HandleSignalCall 4711,
          OutputCall (''pgrep'', [''-f'', ''chrome.*--user-data-dir=/data/work'']),
          FindProcessCall 4242, PidSignalCall 4242])"
    by code_simp
  from state signal found busy result show ?thesis by simp
qed

subsection \<open>Stop on a stopped instance\<close>

text \<open>
  Claim C6. \<open>Stop\<close> on an instance whose running flag is false fails with the error
  "is not running" and performs no call on processes: the calls made are the calls
  that were made before, so there is no signal, no discovery and no kill; the instance is
  unchanged as well.
\<close>

theorem Stop_not_running:
  "\<not> isRunning ci \<Longrightarrow> Stop s ci calls = (ci, Some (NotRunning (Name (config ci))), calls)"
  by (simp add: Stop_def)

theorem Stop_not_running_witness:
  "\<not> isRunning stoppedWork
   \<and> Stop linuxSys stoppedWork [] = (stoppedWork, Some (NotRunning ''work''), [])"
  using Stop_not_running [of stoppedWork linuxSys "[]"]
  by (simp add: stoppedWork_def workConfig_def)

subsection \<open>Start\<close>

text \<open>
  Claim C4. Whenever \<open>Start\<close> returns an error, the instance is the one it was given:
  neither the running flag nor the handle has changed. The error is "already running",
  the failure of the spawn, or (on macOS) the failure to make the directory absolute; when
  the spawn failed the running flag is false after the call, as it was before.
\<close>

theorem Start_error_state_unchanged:
  assumes "Start s ci calls = (ci', Some e, calls')"
  shows "ci' = ci \<and> isRunning ci' = isRunning ci \<and> cmd ci' = cmd ci
         \<and> (e = StartFailed (Name (config ci)) (UserDataDir (config ci)) \<longrightarrow> \<not> isRunning ci')
         \<and> (e = AlreadyRunning (Name (config ci))
            \<or> e = StartFailed (Name (config ci)) (UserDataDir (config ci))
            \<or> e = AbsPathFailed (UserDataDir (config ci)))"
proof (cases "isRunning ci")
  case True
  with assms show ?thesis by (auto simp: Start_def)
next
  case False
  note stopped = this
  show ?thesis
  proof (cases "launchCommand s (config ci)")
    case (Inl err)
    then have "err = AbsPathFailed (UserDataDir (config ci))"
      by (auto simp: launchCommand_def Let_def split: if_splits option.splits)
    with assms stopped Inl show ?thesis by (auto simp: Start_def)
  next
    case (Inr c)
    with assms stopped show ?thesis
      by (cases "proc_start s c") (auto simp: Start_def)
  qed
qed

theorem Start_error_state_unchanged_witness:
  "Start (linuxSys\<lparr>proc_start := \<lambda>c. None\<rparr>) stoppedWork []
     = (stoppedWork, Some (StartFailed ''work'' ''/data/work''),
        [StartCall (''google-chrome'',
                    [''--user-data-dir=/data/work'', ''--no-first-run'',
                     ''--no-default-browser-check''])])
   \<and> \<not> isRunning stoppedWork"
proof -
  have run: "Start (linuxSys\<lparr>proc_start := \<lambda>c. None\<rparr>) stoppedWork []
     = (stoppedWork, Some (StartFailed ''work'' ''/data/work''),
        [StartCall (''google-chrome'',
                    [''--user-data-dir=/data/work'', ''--no-first-run'',
                     ''--no-default-browser-check''])])"
    by (simp add: Start_def launchCommand_def linuxSys_def stoppedWork_def workConfig_def
        suppressionFlags_def)
  from Start_error_state_unchanged [OF run] run show ?thesis
    by (simp add: stoppedWork_def workConfig_def)
qed

lemma startInvariant_initial: "startInvariant ci0 (startInitial ci0)"
  by (simp add: startInvariant_def startInitial_def)

lemma pastCheck_holdsLock: "pastCheck p \<Longrightarrow> holdsLock p"
  by (cases p) simp_all

lemma startInvariant_holder:
  assumes "startInvariant ci0 (ci, locked, pcs)" and "holdsLock (pcs t)"
  shows "locked \<and> (\<forall>u. u \<noteq> t \<longrightarrow> \<not> holdsLock (pcs u))"
proof -
  from assms(1) have a: "locked = (\<exists>t. holdsLock (pcs t))"
    and b: "\<forall>t u. holdsLock (pcs t) \<and> holdsLock (pcs u) \<longrightarrow> t = u"
    by (simp_all add: startInvariant_def)
  from a assms(2) have "locked" by blast
  moreover from b assms(2) have "\<forall>u. u \<noteq> t \<longrightarrow> \<not> holdsLock (pcs u)" by blast
  ultimately show ?thesis by simp
qed

lemma startInvariant_free:
  assumes "startInvariant ci0 (ci, locked, pcs)" and "\<not> locked"
  shows "\<forall>u. \<not> holdsLock (pcs u)"
  using assms by (simp add: startInvariant_def)

lemma startInvariant_past:
  assumes "startInvariant ci0 (ci, locked, pcs)" and "pastCheck (pcs t)"
  shows "\<not> isRunning ci \<and> \<not> isRunning ci0 \<and> (\<forall>u. pcs u \<noteq> Returned None)"
proof -
  from assms(1) have a: "isRunning ci \<longrightarrow> (\<forall>t. \<not> pastCheck (pcs t))"
    and b: "isRunning ci0 \<longrightarrow> ci = ci0"
    and c: "\<not> isRunning ci \<longrightarrow> (\<forall>t. pcs t \<noteq> Returned None)"
    by (simp_all add: startInvariant_def)
  from a assms(2) have stopped: "\<not> isRunning ci" by blast
  with b have "\<not> isRunning ci0" by blast
  with stopped c show ?thesis by blast
qed

lemma startInvariant_rest:
  assumes "startInvariant ci0 (ci, locked, pcs)"
  shows "(\<not> isRunning ci \<longrightarrow> (\<forall>t. pcs t \<noteq> Returned None))
         \<and> (isRunning ci \<longrightarrow>
               (\<forall>t. \<not> pastCheck (pcs t))
               \<and> (\<forall>t u. pcs t = Returned None \<and> pcs u = Returned None \<longrightarrow> t = u))
         \<and> (isRunning ci0 \<longrightarrow> ci = ci0 \<and> (\<forall>t. pcs t \<noteq> Returned None))"
  using assms by (simp add: startInvariant_def)

lemma startInvariant_step:
  assumes "startStep s st st'" and "startInvariant ci0 st"
  shows "startInvariant ci0 st'"
  using assms(1)
proof (cases rule: startStep.cases)
  case (lock pcs t locked ci)
  with assms(2) have inv: "startInvariant ci0 (ci, locked, pcs)" by simp
  from startInvariant_free [OF inv] lock have free: "\<forall>u. \<not> holdsLock (pcs u)" by simp
  from startInvariant_rest [OF inv] free lock show ?thesis
    by (auto simp: startInvariant_def)
next
  case (already_running pcs t ci locked)
  with assms(2) have inv: "startInvariant ci0 (ci, locked, pcs)" by simp
  from already_running have "holdsLock (pcs t)" by simp
  from startInvariant_holder [OF inv this]
  have others: "\<forall>u. u \<noteq> t \<longrightarrow> \<not> holdsLock (pcs u)" by simp
  from startInvariant_rest [OF inv] others already_running show ?thesis
    by (auto simp: startInvariant_def dest: pastCheck_holdsLock)
next
  case (no_command pcs t ci e locked)
  with assms(2) have inv: "startInvariant ci0 (ci, locked, pcs)" by simp
  from no_command have "holdsLock (pcs t)" by simp
  from startInvariant_holder [OF inv this]
  have others: "\<forall>u. u \<noteq> t \<longrightarrow> \<not> holdsLock (pcs u)" by simp
  from startInvariant_rest [OF inv] others no_command show ?thesis
    by (auto simp: startInvariant_def dest: pastCheck_holdsLock)
next
  case (command_built pcs t ci c locked)
  with assms(2) have inv: "startInvariant ci0 (ci, locked, pcs)" by simp
  from command_built have "holdsLock (pcs t)" by simp
  from startInvariant_holder [OF inv this]
  have nowLocked: "locked" and others: "\<forall>u. u \<noteq> t \<longrightarrow> \<not> holdsLock (pcs u)" by simp_all
  from startInvariant_rest [OF inv] nowLocked others command_built show ?thesis
    by (auto simp: startInvariant_def dest: pastCheck_holdsLock)
next
  case (spawn_failed pcs t c ci locked)
  with assms(2) have inv: "startInvariant ci0 (ci, locked, pcs)" by simp
  from spawn_failed have "holdsLock (pcs t)" by simp
  from startInvariant_holder [OF inv this]
  have others: "\<forall>u. u \<noteq> t \<longrightarrow> \<not> holdsLock (pcs u)" by simp
  from startInvariant_rest [OF inv] others spawn_failed show ?thesis
    by (auto simp: startInvariant_def dest: pastCheck_holdsLock)
next
  case (spawned pcs t c pid ci locked)
  with assms(2) have inv: "startInvariant ci0 (ci, locked, pcs)" by simp
  from spawned have held: "holdsLock (pcs t)" and past: "pastCheck (pcs t)" by simp_all
  from startInvariant_holder [OF inv held]
  have nowLocked: "locked" and others: "\<forall>u. u \<noteq> t \<longrightarrow> \<not> holdsLock (pcs u)" by simp_all
  from startInvariant_past [OF inv past]
  have stopped: "\<not> isRunning ci" "\<not> isRunning ci0" "\<forall>u. pcs u \<noteq> Returned None"
    by simp_all
  from nowLocked others stopped spawned show ?thesis
    by (auto simp: startInvariant_def)
next
  case (assigned pcs t started ci locked)
  with assms(2) have inv: "startInvariant ci0 (ci, locked, pcs)" by simp
  from assigned have held: "holdsLock (pcs t)" and past: "pastCheck (pcs t)" by simp_all
  from startInvariant_holder [OF inv held]
  have others: "\<forall>u. u \<noteq> t \<longrightarrow> \<not> holdsLock (pcs u)" by simp
  from startInvariant_past [OF inv past]
  have stopped: "\<not> isRunning ci" "\<not> isRunning ci0" "\<forall>u. pcs u \<noteq> Returned None"
    by simp_all
  from others stopped assigned show ?thesis
    by (auto simp: startInvariant_def dest: pastCheck_holdsLock)
qed

lemma startInvariant_reachable:
  assumes "rtranclp (startStep s) (startInitial ci0) st"
  shows "startInvariant ci0 st"
  using assms
  by (induction rule: rtranclp_induct)
     (auto intro: startInvariant_initial startInvariant_step)

text \<open>A call that runs from the lock to its return with no other call in between does to
  the instance what \<open>Start\<close> does, and returns what \<open>Start\<close> returns.\<close>

lemma startStep_alone:
  assumes "pcs t = AtLock"
  shows "rtranclp (startStep s) (ci, False, pcs)
           (fst (Start s ci calls), False,
            pcs(t := Returned (fst (snd (Start s ci calls)))))"
proof -
  have first: "startStep s (ci, False, pcs) (ci, True, pcs(t := AtCheck))"
    using assms by (simp add: startStep.lock)
  have at: "(pcs(t := AtCheck)) t = AtCheck" by simp
  show ?thesis
  proof (cases "isRunning ci")
    case True
    from startStep.already_running [of "pcs(t := AtCheck)" t ci s True] at True
    have "startStep s (ci, True, pcs(t := AtCheck))
            (ci, False, pcs(t := Returned (Some (AlreadyRunning (Name (config ci))))))"
      by simp
    with first True show ?thesis by (simp add: Start_def)
  next
    case False
    note stopped = this
    show ?thesis
    proof (cases "launchCommand s (config ci)")
      case (Inl e)
      from startStep.no_command [of "pcs(t := AtCheck)" t ci s e True] at stopped Inl
      have "startStep s (ci, True, pcs(t := AtCheck)) (ci, False, pcs(t := Returned (Some e)))"
        by simp
      with first stopped Inl show ?thesis by (simp add: Start_def)
    next
      case (Inr c)
      from startStep.command_built [of "pcs(t := AtCheck)" t ci s c True] at stopped Inr
      have second: "startStep s (ci, True, pcs(t := AtCheck)) (ci, True, pcs(t := AtSpawn c))"
        by simp
      have at2: "(pcs(t := AtSpawn c)) t = AtSpawn c" by simp
      show ?thesis
      proof (cases "proc_start s c")
        case None
        from startStep.spawn_failed [of "pcs(t := AtSpawn c)" t c s ci True] at2 None
        have "startStep s (ci, True, pcs(t := AtSpawn c))
                (ci, False,
                 pcs(t := Returned (Some (StartFailed (Name (config ci))
                                            (UserDataDir (config ci))))))"
          by simp
        with first second stopped Inr None show ?thesis by (simp add: Start_def)
      next
        case (Some pid)
        let ?started = "\<lparr>Command = c, Process = Some pid, ProcessState = None\<rparr>"
        from startStep.spawned [of "pcs(t := AtSpawn c)" t c s pid ci True] at2 Some
        have third: "startStep s (ci, True, pcs(t := AtSpawn c))
                       (ci, True, pcs(t := AtAssign ?started))"
          by simp
        have at3: "(pcs(t := AtAssign ?started)) t = AtAssign ?started" by simp
        from startStep.assigned [of "pcs(t := AtAssign ?started)" t ?started s ci True] at3
        have fourth: "startStep s (ci, True, pcs(t := AtAssign ?started))
                        (ci\<lparr>cmd := Some ?started, isRunning := True\<rparr>, False,
                         pcs(t := Returned None))"
          by simp
        from first second third fourth
        have "rtranclp (startStep s) (ci, False, pcs)
                (ci\<lparr>cmd := Some ?started, isRunning := True\<rparr>, False, pcs(t := Returned None))"
          by simp
        with stopped Inr Some show ?thesis by (simp add: Start_def)
      qed
    qed
  qed
qed

text \<open>
  Claim C5. On a stopped instance, when the operating system accepts the spawn, \<open>Start\<close>
  succeeds and \<open>IsRunning\<close> called next answers true (and changes nothing). On an instance
  whose running flag is true, \<open>Start\<close> fails with "already running", spawns nothing and
  leaves the instance as it was. The test of the flag and its assignment are atomic under
  the lock of the instance: a call that runs alone from \<^verbatim>\<open>Lock()\<close> to its return does
  what \<open>Start\<close> does; and however the statements of any number of calls of \<open>Start\<close> on
  one instance interleave, one call at most holds the lock, one call at most succeeds, a
  call succeeds only if the running flag is then true, and no call succeeds or changes
  the instance when it was running at the outset.
\<close>

theorem Start_then_IsRunning:
  "(\<not> isRunning ci \<and> launchCommand s (config ci) = Inr c \<and> proc_start s c = Some pid \<longrightarrow>
      (\<exists>ci'. Start s ci calls = (ci', None, calls @ [StartCall c])
             \<and> isRunning ci' \<and> ownedProcess ci' = Some pid
             \<and> IsRunning ci' = (ci', True)))
   \<and> (isRunning ci \<longrightarrow>
        Start s ci calls = (ci, Some (AlreadyRunning (Name (config ci))), calls))
   \<and> (pcs0 t0 = AtLock \<longrightarrow>
        rtranclp (startStep s) (ci, False, pcs0)
          (fst (Start s ci calls), False, pcs0(t0 := Returned (fst (snd (Start s ci calls))))))
   \<and> (rtranclp (startStep s) (startInitial ci) (ci1, locked, pcs) \<longrightarrow>
        (\<forall>t u. holdsLock (pcs t) \<and> holdsLock (pcs u) \<longrightarrow> t = u)
        \<and> (\<forall>t u. pcs t = Returned None \<and> pcs u = Returned None \<longrightarrow> t = u)
        \<and> ((\<exists>t. pcs t = Returned None) \<longrightarrow> isRunning ci1)
        \<and> (isRunning ci \<longrightarrow> ci1 = ci \<and> (\<forall>t. pcs t \<noteq> Returned None)))"
proof (intro conjI impI)
  assume "\<not> isRunning ci \<and> launchCommand s (config ci) = Inr c \<and> proc_start s c = Some pid"
  then show "\<exists>ci'. Start s ci calls = (ci', None, calls @ [StartCall c])
             \<and> isRunning ci' \<and> ownedProcess ci' = Some pid
             \<and> IsRunning ci' = (ci', True)"
    by (simp add: Start_def IsRunning_def processExited_def ownedProcess_def)
next
  assume "isRunning ci"
  then show "Start s ci calls = (ci, Some (AlreadyRunning (Name (config ci))), calls)"
    by (simp add: Start_def)
next
  assume "pcs0 t0 = AtLock"
  then show "rtranclp (startStep s) (ci, False, pcs0)
          (fst (Start s ci calls), False, pcs0(t0 := Returned (fst (snd (Start s ci calls)))))"
    by (rule startStep_alone)
next
  assume reach: "rtranclp (startStep s) (startInitial ci) (ci1, locked, pcs)"
  from startInvariant_reachable [OF reach]
  have inv: "startInvariant ci (ci1, locked, pcs)" .
  then have one: "\<forall>t u. holdsLock (pcs t) \<and> holdsLock (pcs u) \<longrightarrow> t = u"
    by (simp add: startInvariant_def)
  from startInvariant_rest [OF inv]
  have none: "\<not> isRunning ci1 \<longrightarrow> (\<forall>t. pcs t \<noteq> Returned None)"
    and once: "isRunning ci1 \<longrightarrow>
                 (\<forall>t u. pcs t = Returned None \<and> pcs u = Returned None \<longrightarrow> t = u)"
    and same: "isRunning ci \<longrightarrow> ci1 = ci \<and> (\<forall>t. pcs t \<noteq> Returned None)"
    by simp_all
  from one show "\<forall>t u. holdsLock (pcs t) \<and> holdsLock (pcs u) \<longrightarrow> t = u" .
  from none once show "\<forall>t u. pcs t = Returned None \<and> pcs u = Returned None \<longrightarrow> t = u"
    by blast
  from none show "isRunning ci1" if "\<exists>t. pcs t = Returned None"
    using that by blast
  from same show "ci1 = ci" if "isRunning ci" using that by blast
  from same show "\<forall>t. pcs t \<noteq> Returned None" if "isRunning ci" using that by blast
qed

text \<open>The theorem at the stopped instance of the profile \<open>work\<close>: \<open>Start\<close> succeeds, and a
  second \<open>Start\<close> fails. Of two calls that run one after the other from the initial
  state, the first succeeds and the second fails.\<close>

theorem Start_then_IsRunning_witness:
  "\<not> isRunning stoppedWork
   \<and> Start linuxSys stoppedWork [] =
       (ownedWork, None,
        [StartCall (''google-chrome'',
                    [''--user-data-dir=/data/work'', ''--no-first-run'',
                     ''--no-default-browser-check''])])
   \<and> IsRunning ownedWork = (ownedWork, True)
   \<and> isRunning ownedWork
   \<and> Start linuxSys ownedWork [] = (ownedWork, Some (AlreadyRunning ''work''), [])
   \<and> rtranclp (startStep linuxSys) (startInitial stoppedWork)
        (ownedWork, False,
         (\<lambda>t::nat. AtLock)(0 := Returned None, 1 := Returned (Some (AlreadyRunning ''work''))))
   \<and> (\<exists>t. ((\<lambda>t::nat. AtLock)(0 := Returned None,
                           1 := Returned (Some (AlreadyRunning ''work'')))) t = Returned None)"
proof -
  let ?c = "(''google-chrome'',
             [''--user-data-dir=/data/work'', ''--no-first-run'',
              ''--no-default-browser-check''])"
  let ?final = "(\<lambda>t::nat. AtLock)(0 := Returned None,
                              1 := Returned (Some (AlreadyRunning ''work'')))"
  have cmd: "launchCommand linuxSys (config stoppedWork) = Inr ?c"
    by (simp add: launchCommand_def linuxSys_def stoppedWork_def workConfig_def
        suppressionFlags_def)
  have spawn: "proc_start linuxSys ?c = Some 4711"
    by (simp add: linuxSys_def)
  have stopped: "\<not> isRunning stoppedWork"
    by (simp add: stoppedWork_def)
  have running: "isRunning ownedWork"
    by (simp add: ownedWork_def)
  note thm1 = Start_then_IsRunning
                [of stoppedWork linuxSys ?c 4711 "[]" "\<lambda>t. AtLock" 0
                    ownedWork False ?final]
  note thm2 = Start_then_IsRunning
                [of ownedWork linuxSys ?c 4711 "[]" "(\<lambda>t::nat. AtLock)(0 := Returned None)" 1]
  from thm1 cmd spawn stopped
  have first: "\<exists>ci'. Start linuxSys stoppedWork [] = (ci', None, [StartCall ?c])
                 \<and> IsRunning ci' = (ci', True)"
    by auto
  have same: "Start linuxSys stoppedWork [] = (ownedWork, None, [StartCall ?c])"
    using cmd spawn stopped by (simp add: Start_def stoppedWork_def ownedWork_def)
  from thm2 running
  have second: "Start linuxSys ownedWork [] = (ownedWork, Some (AlreadyRunning ''work''), [])"
    by (simp add: ownedWork_def workConfig_def)
  from thm1 same
  have run1: "rtranclp (startStep linuxSys) (startInitial stoppedWork)
                (ownedWork, False, (\<lambda>t::nat. AtLock)(0 := Returned None))"
    by (simp add: startInitial_def)
  from thm2 second
  have run2: "rtranclp (startStep linuxSys)
                (ownedWork, False, (\<lambda>t::nat. AtLock)(0 := Returned None)) (ownedWork, False, ?final)"
    by simp
  from run1 run2
  have reach: "rtranclp (startStep linuxSys) (startInitial stoppedWork) (ownedWork, False, ?final)"
    by (rule rtranclp_trans)
  have succeeded: "\<exists>t. ?final t = Returned None"
    by (rule exI [of _ "0::nat"]) simp
  from thm1 reach succeeded have "isRunning ownedWork" by blast
  with first same second stopped reach succeeded show ?thesis by auto
qed

subsection \<open>The launch command\<close>

text \<open>On every platform the command ends with the two suppression flags; the directory
  flag comes before them when the directory of the profile is not empty, and is left out
  when it is empty, as it is for the default profile.\<close>

lemma launchCommand_flags:
  assumes "launchCommand s cfg = Inr (path, args)"
  shows "(UserDataDir cfg = '''' \<longrightarrow> args = suppressionFlags)
         \<and> (UserDataDir cfg \<noteq> '''' \<longrightarrow>
              (\<exists>dir. args = (''--user-data-dir='' @ dir) # suppressionFlags))"
  using assms
  by (auto simp: launchCommand_def Let_def split: if_splits option.splits)

text \<open>On macOS the directory in the flag is what \<^verbatim>\<open>filepath.Abs\<close> returns.\<close>

lemma launchCommand_darwin:
  assumes "os_goos s = ''darwin''" and "UserDataDir cfg \<noteq> ''''"
    and "launchCommand s cfg = Inr (path, args)"
  shows "\<exists>absPath. fp_abs s (UserDataDir cfg) = Some absPath
           \<and> args = (''--user-data-dir='' @ absPath) # suppressionFlags"
  using assms
  by (auto simp: launchCommand_def Let_def split: if_splits option.splits)

text \<open>
  Claim C2 fails on Linux (and on Windows and the other platforms, where the directory is
  not made absolute either). The profile \<open>sideConfig\<close> has the relative directory
  \<^verbatim>\<open>profiles/side\<close>; \<open>SaveConfigs\<close> accepts it. \<open>Start\<close> launches Chrome with the flag
  \<^verbatim>\<open>--user-data-dir=profiles/side\<close>, which is not an absolute path, while the discovery
  of \<open>chromeStop\<close> looks for the absolute path \<^verbatim>\<open>/work/profiles/side\<close>.
\<close>

theorem Start_linux_relative_directory:
  "saveCollect linuxSys (GetDefaultUserDataDir linuxSys) [defaultInstance, sideConfig]
     = Inr [sideConfig]
   \<and> Start linuxSys stoppedSide [] =
       (stoppedSide\<lparr>cmd := Some \<lparr>Command = (''google-chrome'',
                                              [''--user-data-dir=profiles/side'',
                                               ''--no-first-run'',
                                               ''--no-default-browser-check'']),
                                  Process = Some 4711, ProcessState = None\<rparr>,
                     isRunning := True\<rparr>,
        None,
        [StartCall (''google-chrome'',
                    [''--user-data-dir=profiles/side'', ''--no-first-run'',
                     ''--no-default-browser-check''])])
   \<and> \<not> unixIsAbs ''profiles/side''
   \<and> fp_abs linuxSys ''profiles/side'' = Some ''/work/profiles/side''
   \<and> stopDirCommand linuxSys (UserDataDir sideConfig)
       = Some (''pgrep'', [''-f'', ''chrome.*--user-data-dir=/work/profiles/side''])"
proof -
  have accepted: "saveCollect linuxSys (GetDefaultUserDataDir linuxSys)
                    [defaultInstance, sideConfig] = Inr [sideConfig]"
    by code_simp
  have started: "Start linuxSys stoppedSide [] =
       (stoppedSide\<lparr>cmd := Some \<lparr>Command = (''google-chrome'',
                                              [''--user-data-dir=profiles/side'',
                                               ''--no-first-run'',
                                               ''--no-default-browser-check'']),
                                  Process = Some 4711, ProcessState = None\<rparr>,
                     isRunning := True\<rparr>,
        None,
        [StartCall (''google-chrome'',
                    [''--user-data-dir=profiles/side'', ''--no-first-run'',
                     ''--no-default-browser-check''])])"
    by code_simp
  have relative: "\<not> unixIsAbs ''profiles/side''"
    by code_simp
  have absolute: "fp_abs linuxSys ''profiles/side'' = Some ''/work/profiles/side''"
    by code_simp
  have sought: "stopDirCommand linuxSys (UserDataDir sideConfig)
       = Some (''pgrep'', [''-f'', ''chrome.*--user-data-dir=/work/profiles/side''])"
    by code_simp
  from accepted started relative absolute sought show ?thesis by simp
qed

subsection \<open>Wait without a handle\<close>

text \<open>
  Claim C10. For every instance that holds no handle, whatever its running flag, \<open>Wait\<close>
  returns at once with no error, sets the running flag to false and leaves the handle
  empty, without any call on processes; \<open>IsRunning\<close> then answers false. This includes an
  instance marked running because a process was observed when it was built.
\<close>

theorem Wait_without_handle:
  "cmd ci = None \<Longrightarrow>
     Wait s ci calls = Some (ci\<lparr>isRunning := False, cmd := None\<rparr>, False, calls)
     \<and> IsRunning (ci\<lparr>isRunning := False, cmd := None\<rparr>)
         = (ci\<lparr>isRunning := False, cmd := None\<rparr>, False)"
  by (simp add: Wait_def IsRunning_def processExited_def)

theorem Wait_without_handle_witness:
  "cmd observedDefault = None \<and> isRunning observedDefault
   \<and> Wait linuxSys observedDefault []
       = Some (\<lparr>config = defaultInstance, cmd = None, isRunning = False\<rparr>, False, [])
   \<and> IsRunning \<lparr>config = defaultInstance, cmd = None, isRunning = False\<rparr>
       = (\<lparr>config = defaultInstance, cmd = None, isRunning = False\<rparr>, False)"
  using Wait_without_handle [of observedDefault linuxSys "[]"]
  by (simp add: observedDefault_def)

section \<open>Properties of the profile registry\<close>

subsection \<open>What SaveConfigs writes\<close>

text \<open>When its loop returns no error, \<open>SaveConfigs\<close> keeps exactly the entries that are not
  marked default, in order, and each of them passed the three tests.\<close>

lemma saveCollect_Inr:
  "saveCollect s dd cfgs = Inr userConfigs \<Longrightarrow>
     userConfigs = filter (\<lambda>c. \<not> IsDefault c) cfgs
     \<and> (\<forall>c \<in> set userConfigs.
           Name c \<noteq> DefaultChromeConfigName \<and> UserDataDir c \<noteq> ''''
           \<and> \<not> usesDefaultPath s dd (UserDataDir c))"
proof (induction cfgs arbitrary: userConfigs)
  case Nil
  then show ?case by simp
next
  case (Cons cfg rest)
  show ?case
  proof (cases "IsDefault cfg")
    case True
    with Cons show ?thesis by simp
  next
    case False
    with Cons.prems obtain tailConfigs
      where tl: "saveCollect s dd rest = Inr tailConfigs"
        and us: "userConfigs = cfg # tailConfigs"
        and ok: "Name cfg \<noteq> DefaultChromeConfigName" "UserDataDir cfg \<noteq> ''''"
                "\<not> usesDefaultPath s dd (UserDataDir cfg)"
      by (auto split: if_splits sum.splits)
    from Cons.IH [OF tl] False us ok show ?thesis by simp
  qed
qed

text \<open>A successful \<open>SaveConfigs\<close> replaces the contents of the configuration file by the
  encoding of those entries, and changes no other file.\<close>

lemma SaveConfigs_success:
  assumes "SaveConfigs s fs cfgs = (fs', None)"
  shows "saveCollect s (GetDefaultUserDataDir s) cfgs = Inr (filter (\<lambda>c. \<not> IsDefault c) cfgs)
         \<and> (\<exists>data. json_marshal_indent s (map jsonFields (filter (\<lambda>c. \<not> IsDefault c) cfgs))
                      = Some data
                    \<and> fs' = fs(configFile s \<mapsto> data))"
proof -
  from assms obtain userConfigs
    where sc: "saveCollect s (GetDefaultUserDataDir s) cfgs = Inr userConfigs"
    by (cases "saveCollect s (GetDefaultUserDataDir s) cfgs") (auto simp: SaveConfigs_def)
  from saveCollect_Inr [OF sc]
  have us: "userConfigs = filter (\<lambda>c. \<not> IsDefault c) cfgs" by simp
  from assms sc us show ?thesis
    by (auto simp: SaveConfigs_def split: option.splits if_splits)
qed

text \<open>A failed \<open>SaveConfigs\<close> leaves the files as they were.\<close>

lemma SaveConfigs_failure:
  "SaveConfigs s fs cfgs = (fs', Some e) \<Longrightarrow> fs' = fs"
  by (auto simp: SaveConfigs_def split: sum.splits option.splits if_splits)

subsection \<open>AddConfig with the default directory\<close>

text \<open>
  Claim C8. Let the platform have a default profile directory (\<open>GetDefaultUserDataDir\<close>
  is not empty), and let the directory given to \<open>AddConfig\<close> normalise to it: both have
  an absolute path, and the two are equal under \<^verbatim>\<open>strings.EqualFold\<close>. Then, for every
  name and every current list, \<open>AddConfig\<close> fails with one of its validation errors,
  returns the current list as it was given, and writes no file. The error is "reserved
  for the default Chrome profile" unless one of the two earlier tests (reserved name,
  blank directory) fails first.
\<close>

theorem AddConfig_default_directory:
  assumes "GetDefaultUserDataDir s \<noteq> ''''"
    and "fp_abs s userDataDir = Some absNewPath"
    and "fp_abs s (GetDefaultUserDataDir s) = Some absDefaultPath"
    and "str_equal_fold s absNewPath absDefaultPath"
  shows "\<exists>e. AddConfig s fs name userDataDir currentConfigs = (fs, currentConfigs, Some e)
           \<and> (e = AddReservedName \<or> e = AddEmptyUserDataDir \<or> e = AddDefaultPath userDataDir)
           \<and> (name \<noteq> DefaultChromeConfigName \<and> TrimSpace userDataDir \<noteq> '''' \<longrightarrow>
                e = AddDefaultPath userDataDir)"
proof -
  from assms have "usesDefaultPath s (GetDefaultUserDataDir s) userDataDir"
    by (simp add: usesDefaultPath_def)
  then show ?thesis by (simp add: AddConfig_def)
qed

theorem AddConfig_default_directory_witness:
  "GetDefaultUserDataDir linuxSys = ''/home/u/.config/google-chrome''
   \<and> fp_abs linuxSys ''/HOME/u/.config/Google-Chrome'' = Some ''/HOME/u/.config/Google-Chrome''
   \<and> fp_abs linuxSys ''/home/u/.config/google-chrome'' = Some ''/home/u/.config/google-chrome''
   \<and> str_equal_fold linuxSys ''/HOME/u/.config/Google-Chrome'' ''/home/u/.config/google-chrome''
   \<and> AddConfig linuxSys Map.empty ''play'' ''/HOME/u/.config/Google-Chrome''
        [defaultInstance, workConfig]
      = (Map.empty, [defaultInstance, workConfig],
         Some (AddDefaultPath ''/HOME/u/.config/Google-Chrome''))"
proof -
  have dd: "GetDefaultUserDataDir linuxSys = ''/home/u/.config/google-chrome''"
    by code_simp
  have a1: "fp_abs linuxSys ''/HOME/u/.config/Google-Chrome''
              = Some ''/HOME/u/.config/Google-Chrome''"
    by code_simp
  have a2: "fp_abs linuxSys ''/home/u/.config/google-chrome''
              = Some ''/home/u/.config/google-chrome''"
    by code_simp
  have eq: "str_equal_fold linuxSys ''/HOME/u/.config/Google-Chrome''
              ''/home/u/.config/google-chrome''"
    by code_simp
  have name: "''play'' \<noteq> DefaultChromeConfigName"
    by code_simp
  have dir: "TrimSpace ''/HOME/u/.config/Google-Chrome'' \<noteq> ''''"
    by code_simp
  from AddConfig_default_directory
         [of linuxSys "''/HOME/u/.config/Google-Chrome''" "''/HOME/u/.config/Google-Chrome''"
             "''/home/u/.config/google-chrome''" Map.empty "''play''"
             "[defaultInstance, workConfig]"]
       dd a1 a2 eq name dir
  show ?thesis by auto
qed

subsection \<open>RemoveConfig\<close>

lemma removeScan_filter:
  "removeScan name cfgs = (name \<in> Name ` set cfgs, filter (\<lambda>c. Name c \<noteq> name) cfgs)"
  by (induction cfgs) auto

text \<open>
  Claim C9. \<open>RemoveConfig\<close> with the reserved name always fails with "cannot remove the
  default Chrome instance", whether or not the list holds an entry of that name: the test
  of the name comes first. With another name that no entry of the list bears, it fails
  with "not found". In both cases it returns the list it was given and writes no file.
  Otherwise it removes every entry of that name and passes the rest to \<open>SaveConfigs\<close>:
  when that succeeds, the shortened list is returned and its entries that are not marked
  default are what the configuration file now holds; when it fails, the error is returned
  with the list as it was given.
\<close>

theorem RemoveConfig_cases:
  "RemoveConfig s fs DefaultChromeConfigName currentConfigs
     = (fs, currentConfigs, Some RemoveDefault)
   \<and> (name \<noteq> DefaultChromeConfigName \<and> name \<notin> Name ` set currentConfigs \<longrightarrow>
        RemoveConfig s fs name currentConfigs = (fs, currentConfigs, Some (RemoveNotFound name)))
   \<and> (name \<noteq> DefaultChromeConfigName \<and> name \<in> Name ` set currentConfigs \<longrightarrow>
        (\<exists>fs' saved.
           SaveConfigs s fs (filter (\<lambda>c. Name c \<noteq> name) currentConfigs) = (fs', saved)
           \<and> RemoveConfig s fs name currentConfigs =
               (case saved of
                  None \<Rightarrow> (fs', filter (\<lambda>c. Name c \<noteq> name) currentConfigs, None)
                | Some e \<Rightarrow> (fs, currentConfigs, Some (RemoveSaveFailed e)))
           \<and> (saved = None \<longrightarrow>
                (\<exists>data. json_marshal_indent s
                           (map jsonFields
                              (filter (\<lambda>c. \<not> IsDefault c)
                                 (filter (\<lambda>c. Name c \<noteq> name) currentConfigs))) = Some data
                        \<and> fs' = fs(configFile s \<mapsto> data)))))"
proof (intro conjI impI)
  show "RemoveConfig s fs DefaultChromeConfigName currentConfigs
          = (fs, currentConfigs, Some RemoveDefault)"
    by (simp add: RemoveConfig_def)
next
  assume "name \<noteq> DefaultChromeConfigName \<and> name \<notin> Name ` set currentConfigs"
  then show "RemoveConfig s fs name currentConfigs
               = (fs, currentConfigs, Some (RemoveNotFound name))"
    by (simp add: RemoveConfig_def removeScan_filter)
next
  assume present: "name \<noteq> DefaultChromeConfigName \<and> name \<in> Name ` set currentConfigs"
  obtain fs' saved
    where sv: "SaveConfigs s fs (filter (\<lambda>c. Name c \<noteq> name) currentConfigs) = (fs', saved)"
    by (cases "SaveConfigs s fs (filter (\<lambda>c. Name c \<noteq> name) currentConfigs)") auto
  show "\<exists>fs' saved.
           SaveConfigs s fs (filter (\<lambda>c. Name c \<noteq> name) currentConfigs) = (fs', saved)
           \<and> RemoveConfig s fs name currentConfigs =
               (case saved of
                  None \<Rightarrow> (fs', filter (\<lambda>c. Name c \<noteq> name) currentConfigs, None)
                | Some e \<Rightarrow> (fs, currentConfigs, Some (RemoveSaveFailed e)))
           \<and> (saved = None \<longrightarrow>
                (\<exists>data. json_marshal_indent s
                           (map jsonFields
                              (filter (\<lambda>c. \<not> IsDefault c)
                                 (filter (\<lambda>c. Name c \<noteq> name) currentConfigs))) = Some data
                        \<and> fs' = fs(configFile s \<mapsto> data)))"
  proof (cases saved)
    case None
    with sv have ok: "SaveConfigs s fs (filter (\<lambda>c. Name c \<noteq> name) currentConfigs) = (fs', None)"
      by simp
    from SaveConfigs_success [OF ok] obtain data
      where "json_marshal_indent s
               (map jsonFields
                  (filter (\<lambda>c. \<not> IsDefault c)
                     (filter (\<lambda>c. Name c \<noteq> name) currentConfigs))) = Some data"
        and "fs' = fs(configFile s \<mapsto> data)"
      by auto
    with ok None present show ?thesis
      by (simp add: RemoveConfig_def removeScan_filter)
  next
    case (Some e)
    with sv have bad: "SaveConfigs s fs (filter (\<lambda>c. Name c \<noteq> name) currentConfigs)
                         = (fs', Some e)"
      by simp
    from SaveConfigs_failure [OF bad] bad Some present show ?thesis
      by (simp add: RemoveConfig_def removeScan_filter)
  qed
qed

theorem RemoveConfig_cases_witness:
  "''work'' \<noteq> DefaultChromeConfigName \<and> ''play'' \<noteq> DefaultChromeConfigName
   \<and> ''work'' \<in> Name ` set [defaultInstance, workConfig]
   \<and> ''play'' \<notin> Name ` set [defaultInstance, workConfig]
   \<and> RemoveConfig linuxSys Map.empty DefaultChromeConfigName [defaultInstance, workConfig]
       = (Map.empty, [defaultInstance, workConfig], Some RemoveDefault)
   \<and> RemoveConfig linuxSys Map.empty ''play'' [defaultInstance, workConfig]
       = (Map.empty, [defaultInstance, workConfig], Some (RemoveNotFound ''play''))
   \<and> RemoveConfig linuxSys Map.empty ''work'' [defaultInstance, workConfig]
       = (Map.empty(''/home/u/.config/chromes/configs.json'' \<mapsto> ''[]''),
          [defaultInstance], None)"
proof -
  have n1: "''work'' \<noteq> DefaultChromeConfigName" by code_simp
  have n2: "''play'' \<noteq> DefaultChromeConfigName" by code_simp
  have m1: "''work'' \<in> Name ` set [defaultInstance, workConfig]"
    by (simp add: workConfig_def)
  have m2: "''play'' \<notin> Name ` set [defaultInstance, workConfig]"
    using n2 by (auto simp: workConfig_def defaultInstance_def)
  have kept: "filter (\<lambda>c. Name c \<noteq> ''work'') [defaultInstance, workConfig] = [defaultInstance]"
    using n1 by (auto simp: workConfig_def defaultInstance_def)
  have path: "configFile linuxSys = ''/home/u/.config/chromes/configs.json''"
    by code_simp
  have save: "SaveConfigs linuxSys Map.empty [defaultInstance]
                = (Map.empty(''/home/u/.config/chromes/configs.json'' \<mapsto> ''[]''), None)"
    using path
    by (simp add: SaveConfigs_def defaultInstance_def linuxSys_def jsonEncode_def)
  from RemoveConfig_cases [of linuxSys Map.empty "[defaultInstance, workConfig]" "''play''"]
       n2 m2
  have r1: "RemoveConfig linuxSys Map.empty DefaultChromeConfigName [defaultInstance, workConfig]
              = (Map.empty, [defaultInstance, workConfig], Some RemoveDefault)"
    and r2: "RemoveConfig linuxSys Map.empty ''play'' [defaultInstance, workConfig]
              = (Map.empty, [defaultInstance, workConfig], Some (RemoveNotFound ''play''))"
    by blast+
  from RemoveConfig_cases [of linuxSys Map.empty "[defaultInstance, workConfig]" "''work''"]
       n1 m1
  obtain fs' saved
    where sv: "SaveConfigs linuxSys Map.empty
                 (filter (\<lambda>c. Name c \<noteq> ''work'') [defaultInstance, workConfig]) = (fs', saved)"
      and rc: "RemoveConfig linuxSys Map.empty ''work'' [defaultInstance, workConfig] =
                 (case saved of
                    None \<Rightarrow>
                      (fs', filter (\<lambda>c. Name c \<noteq> ''work'') [defaultInstance, workConfig], None)
                  | Some e \<Rightarrow>
                      (Map.empty, [defaultInstance, workConfig], Some (RemoveSaveFailed e)))"
    by blast
  from sv save
  have "fs' = Map.empty(''/home/u/.config/chromes/configs.json'' \<mapsto> ''[]'') \<and> saved = None"
    unfolding kept by simp
  with rc
  have r3: "RemoveConfig linuxSys Map.empty ''work'' [defaultInstance, workConfig]
       = (Map.empty(''/home/u/.config/chromes/configs.json'' \<mapsto> ''[]''),
          [defaultInstance], None)"
    unfolding kept by simp
  from n1 n2 m1 m2 r1 r2 r3 show ?thesis by blast
qed

subsection \<open>Save, then load\<close>




end
